theory Spec2Isabelle
  imports Complex_Main
begin

section \<open>Python strings\<close>

text \<open>
  A Python \<open>str\<close> is a sequence of Unicode code points, and \<open>len\<close> counts code points.
  The model is a list of code point numbers (as integers).
\<close>

type_synonym ustr = "int list"

definition ustr_of :: "string \<Rightarrow> ustr" where
  "ustr_of s = map of_char s"

definition in_range :: "int \<Rightarrow> int \<Rightarrow> int \<Rightarrow> bool" where
  "in_range lo hi c = (lo \<le> c \<and> c \<le> hi)"

text \<open>\<open>str.isspace\<close> on one character, which is also what \<open>strip\<close> removes and what the
  regular expression class \<open>\s\<close> matches on a \<open>str\<close> pattern.\<close>

definition py_isspace :: "int \<Rightarrow> bool" where
  "py_isspace c =
     (in_range 0x09 0x0D c \<or> in_range 0x1C 0x20 c \<or> c = 0x85 \<or> c = 0xA0 \<or> c = 0x1680 \<or>
      in_range 0x2000 0x200A c \<or> c = 0x2028 \<or> c = 0x2029 \<or> c = 0x202F \<or> c = 0x205F \<or>
      c = 0x3000)"

definition lstrip :: "ustr \<Rightarrow> ustr" where
  "lstrip s = dropWhile py_isspace s"

definition rstrip :: "ustr \<Rightarrow> ustr" where
  "rstrip s = rev (dropWhile py_isspace (rev s))"

definition strip :: "ustr \<Rightarrow> ustr" where
  "strip s = rstrip (lstrip s)"

text \<open>\<open>sep.join(parts)\<close>.\<close>

fun py_join :: "ustr \<Rightarrow> ustr list \<Rightarrow> ustr" where
  "py_join sep [] = []"
| "py_join sep [x] = x"
| "py_join sep (x # y # ys) = x @ sep @ py_join sep (y # ys)"

definition startswith :: "ustr \<Rightarrow> ustr \<Rightarrow> bool" where
  "startswith s p = (take (length p) s = p)"

definition endswith :: "ustr \<Rightarrow> ustr \<Rightarrow> bool" where
  "endswith s p = (length p \<le> length s \<and> drop (length s - length p) s = p)"

section \<open>Python floats\<close>

text \<open>
  A Python \<open>float\<close> is an IEEE 754 binary64 number.  The model takes a float as the rational
  number it stands for, and every operation rounds its exact result to 53 significant bits,
  ties to the even significand, as the hardware does.  The exponent is not bounded in the
  model: the floats computed by this program are quotients, products and sums of string
  lengths and of numbers of microseconds, which stay inside the range of binary64.

  \<open>bit_length n\<close> is \<open>n.bit_length()\<close> and \<open>shift_left n k\<close> is \<open>n << k\<close>, for \<open>n \<ge> 0\<close> and
  \<open>k \<ge> 0\<close>.
\<close>

type_synonym pyfloat = rat

function bit_length :: "int \<Rightarrow> int" where
  "bit_length n = (if n \<le> 0 then 0 else bit_length (n div 2) + 1)"
  by pat_completeness auto
termination
  by (relation "measure nat") auto

declare bit_length.simps [simp del]

function shift_left :: "int \<Rightarrow> int \<Rightarrow> int" where
  "shift_left n k = (if k \<le> 0 then n else shift_left (2 * n) (k - 1))"
  by pat_completeness auto
termination
  by (relation "measure (\<lambda>(n, k). nat k)") auto

declare shift_left.simps [simp del]

text \<open>The integer nearest to \<open>n / d\<close>, the even one of two that are equally near, for
  \<open>d > 0\<close>.\<close>

definition round_half_even :: "int \<Rightarrow> int \<Rightarrow> int" where
  "round_half_even n d =
     (let f = n div d;
          r = n mod d
      in if 2 * r < d then f
         else if d < 2 * r then f + 1
         else if even f then f else f + 1)"

text \<open>
  The float nearest to \<open>p / q\<close> for positive integers \<open>p\<close> and \<open>q\<close>: with
  \<open>2 ^ e \<le> p / q < 2 ^ (e + 1)\<close>, it is \<open>m * 2 ^ (e - 52)\<close> for the integer \<open>m\<close> nearest to
  \<open>p / q / 2 ^ (e - 52)\<close>.
\<close>

definition round_quotient :: "int \<Rightarrow> int \<Rightarrow> pyfloat" where
  "round_quotient p q =
     (let e0 = bit_length p - bit_length q;
          e = (if (if 0 \<le> e0 then shift_left q e0 \<le> p else q \<le> shift_left p (- e0))
               then e0 else e0 - 1)
      in if e \<le> 52
         then of_int (round_half_even (shift_left p (52 - e)) q) / of_int (shift_left 1 (52 - e))
         else of_int (shift_left (round_half_even p (shift_left q (e - 52))) (e - 52)))"

text \<open>The float nearest to a rational number.\<close>

definition round_double :: "rat \<Rightarrow> pyfloat" where
  "round_double x =
     (if x = 0 then 0
      else (case quotient_of \<bar>x\<bar> of (p, q) \<Rightarrow> sgn x * round_quotient p q))"

text \<open>
  \<open>a + b\<close>, \<open>a * b\<close> and \<open>a / b\<close> on floats; \<open>i / j\<close> on integers, which Python rounds once,
  from the exact quotient; \<open>float(i)\<close>; and \<open>int(x)\<close>, which drops the fraction.  No division
  below has a zero divisor.
\<close>

definition float_add :: "pyfloat \<Rightarrow> pyfloat \<Rightarrow> pyfloat" where
  "float_add a b = round_double (a + b)"

definition float_mul :: "pyfloat \<Rightarrow> pyfloat \<Rightarrow> pyfloat" where
  "float_mul a b = round_double (a * b)"

definition float_div :: "pyfloat \<Rightarrow> pyfloat \<Rightarrow> pyfloat" where
  "float_div a b = round_double (a / b)"

definition int_truediv :: "int \<Rightarrow> int \<Rightarrow> pyfloat" where
  "int_truediv i j = round_double (of_int i / of_int j)"

definition float_of_int :: "int \<Rightarrow> pyfloat" where
  "float_of_int i = round_double (of_int i)"

definition int_of_float :: "pyfloat \<Rightarrow> int" where
  "int_of_float x = (if 0 \<le> x then \<lfloor>x\<rfloor> else - \<lfloor>- x\<rfloor>)"

section \<open>Data model (models/subtitle.py)\<close>

datatype Language = AUTO | CHINESE | ENGLISH | KOREAN | JAPANESE

datatype ContentType = ADULT | CHILDREN

text \<open>A \<open>timedelta\<close> is its total number of microseconds.\<close>

record TimeCode =
  tc_start :: int
  tc_end :: int

definition duration :: "TimeCode \<Rightarrow> int" where
  "duration tc = tc_end tc - tc_start tc"

text \<open>\<open>td.total_seconds()\<close>: the microseconds divided by \<open>10 ** 6\<close>, as one quotient of
  integers.\<close>

definition total_seconds :: "int \<Rightarrow> pyfloat" where
  "total_seconds td = int_truediv td 1000000"

record SubtitleBlock =
  index :: int
  time_code :: TimeCode
  lines :: "ustr list"
  language :: "Language option"
  is_sdh :: bool

definition text_of :: "SubtitleBlock \<Rightarrow> ustr" where
  "text_of b = py_join [0x0A] (lines b)"

definition character_count :: "SubtitleBlock \<Rightarrow> nat" where
  "character_count b = sum_list (map length (lines b))"

definition get_reading_speed :: "SubtitleBlock \<Rightarrow> pyfloat" where
  "get_reading_speed b =
     (let duration_seconds = total_seconds (duration (time_code b))
      in if duration_seconds \<le> 0 then 0
         else float_div (float_of_int (int (character_count b))) duration_seconds)"

record SRTDocument =
  blocks :: "SubtitleBlock list"
  source_file :: "ustr option"
  detected_language :: "Language option"
  encoding :: ustr

record ProcessingConfig =
  config_language :: Language
  content_type :: ContentType
  sdh_mode :: bool
  force_encoding :: "ustr option"
  no_speed_check :: bool
  no_punct_fix :: bool
  batch_mode :: bool
  batch_directory :: "ustr option"
  check_only :: bool
  output_violation :: "ustr option"
  remove_sdh :: bool

fun get_character_limit :: "ProcessingConfig \<Rightarrow> Language \<Rightarrow> nat" where
  "get_character_limit cfg CHINESE = (if sdh_mode cfg then 18 else 16)"
| "get_character_limit cfg ENGLISH = 42"
| "get_character_limit cfg KOREAN = 16"
| "get_character_limit cfg JAPANESE = (if sdh_mode cfg then 16 else 13)"
| "get_character_limit cfg AUTO = 42"

fun adult_speeds :: "ProcessingConfig \<Rightarrow> Language \<Rightarrow> pyfloat option" where
  "adult_speeds cfg CHINESE = Some 9"
| "adult_speeds cfg ENGLISH = Some 20"
| "adult_speeds cfg KOREAN = Some 12"
| "adult_speeds cfg JAPANESE = Some (if sdh_mode cfg then 7 else 4)"
| "adult_speeds cfg AUTO = None"

fun children_speeds :: "ProcessingConfig \<Rightarrow> Language \<Rightarrow> pyfloat option" where
  "children_speeds cfg CHINESE = Some 7"
| "children_speeds cfg ENGLISH = Some 17"
| "children_speeds cfg KOREAN = Some 9"
| "children_speeds cfg JAPANESE = Some (if sdh_mode cfg then 7 else 4)"
| "children_speeds cfg AUTO = None"

definition get_reading_speed_limit :: "ProcessingConfig \<Rightarrow> Language \<Rightarrow> pyfloat" where
  "get_reading_speed_limit cfg lang =
     (let speeds = (if content_type cfg = ADULT then adult_speeds cfg else children_speeds cfg)
      in case speeds lang of Some v \<Rightarrow> v | None \<Rightarrow> 20)"

section \<open>Language detection (core/language\_detector.py)\<close>

record char_counts =
  chinese :: nat
  korean :: nat
  hiragana :: nat
  katakana :: nat
  ascii :: nat
  chinese_punct :: nat
  korean_punct :: nat
  japanese_punct :: nat
  total_chars :: nat

definition chinese_pattern :: "int \<Rightarrow> bool" where
  "chinese_pattern c = in_range 0x4E00 0x9FFF c"

definition korean_pattern :: "int \<Rightarrow> bool" where
  "korean_pattern c = in_range 0xAC00 0xD7AF c"

definition hiragana_pattern :: "int \<Rightarrow> bool" where
  "hiragana_pattern c = in_range 0x3040 0x309F c"

definition katakana_pattern :: "int \<Rightarrow> bool" where
  "katakana_pattern c = in_range 0x30A0 0x30FF c"

definition ascii_pattern :: "int \<Rightarrow> bool" where
  "ascii_pattern c = (in_range 0x61 0x7A c \<or> in_range 0x41 0x5A c)"

definition chinese_punct_pattern :: "int \<Rightarrow> bool" where
  "chinese_punct_pattern c =
     (c \<in> set [0x3002, 0xFF01, 0xFF1F, 0xFF0C, 0xFF1A, 0xFF08, 0xFF09, 0x3010, 0x3011, 0x300A, 0x300B])"

definition korean_punct_pattern :: "int \<Rightarrow> bool" where
  "korean_punct_pattern c =
     (c \<in> set [0x3002, 0xFF01, 0xFF1F, 0xFF0C, 0xFF1A, 0xFF08, 0xFF09, 0x3010, 0x3011, 0x300A, 0x300B])"

definition japanese_punct_pattern :: "int \<Rightarrow> bool" where
  "japanese_punct_pattern c =
     (c \<in> set [0x3002, 0xFF01, 0xFF1F, 0x3001, 0xFF1A, 0xFF08, 0xFF09, 0x3010, 0x3011, 0x300A, 0x300B,
               0x3008, 0x3009])"

text \<open>\<open>len(pattern.findall(text))\<close> for a one-character class.\<close>

definition findall_count :: "(int \<Rightarrow> bool) \<Rightarrow> ustr \<Rightarrow> nat" where
  "findall_count p s = length (filter p s)"

definition count_characters :: "ustr \<Rightarrow> char_counts" where
  "count_characters s =
     \<lparr> chinese = findall_count chinese_pattern s,
       korean = findall_count korean_pattern s,
       hiragana = findall_count hiragana_pattern s,
       katakana = findall_count katakana_pattern s,
       ascii = findall_count ascii_pattern s,
       chinese_punct = findall_count chinese_punct_pattern s,
       korean_punct = findall_count korean_punct_pattern s,
       japanese_punct = findall_count japanese_punct_pattern s,
       total_chars = length (filter (\<lambda>c. c \<noteq> 0x20) s) \<rparr>"

text \<open>
  The score dictionary keeps its insertion order: Chinese, English, Korean, Japanese.  The
  scores are floats: every ratio is a quotient of two integers, and the products and sums
  are float operations; the literals \<open>0.1\<close> and \<open>0.01\<close> are the floats nearest to them, and
  \<open>0.5\<close>, \<open>2\<close> and \<open>10\<close> are floats themselves.
\<close>

definition calculate_language_scores :: "char_counts \<Rightarrow> (Language \<times> pyfloat) list" where
  "calculate_language_scores cc =
     (let total = int (max (total_chars cc) 1);
          chinese_ratio = int_truediv (int (chinese cc)) total;
          chinese_punct_ratio = int_truediv (int (chinese_punct cc)) total;
          zh = float_add (float_mul chinese_ratio 10) (float_mul chinese_punct_ratio 2);
          ascii_ratio = int_truediv (int (ascii cc)) total;
          cjk_total = chinese cc + korean cc + hiragana cc + katakana cc;
          cjk_ratio = int_truediv (int cjk_total) total;
          en = (if cjk_ratio < round_double (1 / 10) then float_mul ascii_ratio 10
                else float_mul ascii_ratio 2);
          korean_ratio = int_truediv (int (korean cc)) total;
          korean_punct_ratio = int_truediv (int (korean_punct cc)) total;
          ko = float_add (float_mul korean_ratio 10) (float_mul korean_punct_ratio 2);
          hiragana_ratio = int_truediv (int (hiragana cc)) total;
          katakana_ratio = int_truediv (int (katakana cc)) total;
          japanese_punct_ratio = int_truediv (int (japanese_punct cc)) total;
          japanese_script_ratio = float_add hiragana_ratio katakana_ratio;
          japanese_with_kanji_ratio =
            float_add japanese_script_ratio (float_mul chinese_ratio (1 / 2));
          ja = float_add (float_mul japanese_with_kanji_ratio 10) (float_mul japanese_punct_ratio 2);
          min_threshold = round_double (1 / 100);
          floor0 = (\<lambda>v. if v < min_threshold then 0 else v)
      in [(CHINESE, floor0 zh), (ENGLISH, floor0 en), (KOREAN, floor0 ko), (JAPANESE, floor0 ja)])"

text \<open>\<open>max(scores.keys(), key=...)\<close>: the first key with the largest score.\<close>

fun max_by_score :: "Language \<times> pyfloat \<Rightarrow> (Language \<times> pyfloat) list \<Rightarrow> Language" where
  "max_by_score best [] = fst best"
| "max_by_score best (x # xs) = max_by_score (if snd best < snd x then x else best) xs"

definition best_language :: "(Language \<times> pyfloat) list \<Rightarrow> Language" where
  "best_language scores = (case scores of [] \<Rightarrow> ENGLISH | x # xs \<Rightarrow> max_by_score x xs)"

definition analyze_character_distribution :: "SubtitleBlock list \<Rightarrow> char_counts" where
  "analyze_character_distribution bs = count_characters (py_join [0x20] (map text_of bs))"

definition detect_language :: "SRTDocument \<Rightarrow> Language" where
  "detect_language doc =
     (if blocks doc = [] then ENGLISH
      else best_language (calculate_language_scores (analyze_character_distribution (blocks doc))))"

definition detect_block_language :: "SubtitleBlock \<Rightarrow> Language" where
  "detect_block_language b =
     (let text = text_of b
      in if strip text = [] then ENGLISH
         else best_language (calculate_language_scores (count_characters text)))"

definition detect_line_language :: "ustr \<Rightarrow> Language" where
  "detect_line_language line =
     (if strip line = [] then ENGLISH
      else best_language (calculate_language_scores (count_characters line)))"

definition detect_block_languages :: "SRTDocument \<Rightarrow> SRTDocument" where
  "detect_block_languages doc =
     doc\<lparr>blocks := map (\<lambda>b. b\<lparr>language := Some (detect_block_language b)\<rparr>) (blocks doc)\<rparr>"

section \<open>Compliance validator (core/processor.py)\<close>

datatype engine = ChineseProcessor | EnglishProcessor | KoreanProcessor

text \<open>The processor table of \<open>SRTProcessor.__init__\<close>; there is no Japanese entry.\<close>

fun processors :: "Language \<Rightarrow> engine option" where
  "processors CHINESE = Some ChineseProcessor"
| "processors ENGLISH = Some EnglishProcessor"
| "processors KOREAN = Some KoreanProcessor"
| "processors JAPANESE = None"
| "processors AUTO = None"

text \<open>\<open>validate_reading_speed\<close> has the same body in the three engine classes.\<close>

fun validate_reading_speed :: "engine \<Rightarrow> ProcessingConfig \<Rightarrow> SubtitleBlock \<Rightarrow> bool" where
  "validate_reading_speed ChineseProcessor cfg b =
     (if no_speed_check cfg then True
      else get_reading_speed b \<le> get_reading_speed_limit cfg (config_language cfg))"
| "validate_reading_speed EnglishProcessor cfg b =
     (if no_speed_check cfg then True
      else get_reading_speed b \<le> get_reading_speed_limit cfg (config_language cfg))"
| "validate_reading_speed KoreanProcessor cfg b =
     (if no_speed_check cfg then True
      else get_reading_speed b \<le> get_reading_speed_limit cfg (config_language cfg))"

text \<open>
  A warning is the data its message is formatted from.  A character-limit warning carries
  the block index, the one-based line number, the line length, the limit and the line's
  language; a reading-speed warning carries the block index, the speed and the limit shown.
\<close>

datatype warning =
  CharLimitWarning int nat nat nat Language
| ReadingSpeedWarning int pyfloat pyfloat

fun warning_block :: "warning \<Rightarrow> int" where
  "warning_block (CharLimitWarning i _ _ _ _) = i"
| "warning_block (ReadingSpeedWarning i _ _) = i"

fun is_speed_warning :: "warning \<Rightarrow> bool" where
  "is_speed_warning (CharLimitWarning _ _ _ _ _) = False"
| "is_speed_warning (ReadingSpeedWarning _ _ _) = True"

text \<open>\<open>block.language or document.detected_language or Language.ENGLISH\<close>.\<close>

definition resolve_block_language :: "SRTDocument \<Rightarrow> SubtitleBlock \<Rightarrow> Language" where
  "resolve_block_language doc b =
     (case language b of Some l \<Rightarrow> l
      | None \<Rightarrow> (case detected_language doc of Some l \<Rightarrow> l | None \<Rightarrow> ENGLISH))"

text \<open>The loop over \<open>enumerate(block.lines)\<close>, from line index \<open>line_idx\<close> on.\<close>

fun char_limit_warnings :: "ProcessingConfig \<Rightarrow> int \<Rightarrow> nat \<Rightarrow> ustr list \<Rightarrow> warning list" where
  "char_limit_warnings cfg idx line_idx [] = []"
| "char_limit_warnings cfg idx line_idx (line # rest) =
     (if strip line = [] then char_limit_warnings cfg idx (line_idx + 1) rest
      else
        (let line_language = detect_line_language line;
             char_limit = get_character_limit cfg line_language;
             line_char_count = length line
         in (if line_char_count > char_limit
             then [CharLimitWarning idx (line_idx + 1) line_char_count char_limit line_language]
             else [])
            @ char_limit_warnings cfg idx (line_idx + 1) rest))"

definition speed_warnings :: "engine \<Rightarrow> ProcessingConfig \<Rightarrow> Language \<Rightarrow> SubtitleBlock \<Rightarrow> warning list" where
  "speed_warnings processor cfg block_language b =
     (if \<not> no_speed_check cfg then
        (if \<not> validate_reading_speed processor cfg b
         then [ReadingSpeedWarning (index b) (get_reading_speed b)
                 (get_reading_speed_limit cfg block_language)]
         else [])
      else [])"

text \<open>The body of the loop over the blocks: the warnings one block adds.\<close>

definition validate_block :: "ProcessingConfig \<Rightarrow> SRTDocument \<Rightarrow> SubtitleBlock \<Rightarrow> warning list" where
  "validate_block cfg doc b =
     (let block_language = resolve_block_language doc b
      in case processors block_language of
           None \<Rightarrow> []
         | Some processor \<Rightarrow>
             char_limit_warnings cfg (index b) 0 (lines b)
             @ speed_warnings processor cfg block_language b)"

record statistics =
  total_blocks :: nat
  warning_count :: nat
  error_count :: nat
  stat_detected_language :: "Language option"

record validation_results =
  valid :: bool
  warnings :: "warning list"
  errors :: "ustr list"
  stats :: statistics

definition validate_document :: "ProcessingConfig \<Rightarrow> SRTDocument \<Rightarrow> validation_results" where
  "validate_document cfg doc =
     (let ws = concat (map (validate_block cfg doc) (blocks doc));
          es = []
      in \<lparr> valid = (length es = 0), warnings = ws, errors = es,
           stats = \<lparr> total_blocks = length (blocks doc), warning_count = length ws,
                     error_count = length es, stat_detected_language = detected_language doc \<rparr> \<rparr>)"

text \<open>
  The compliance figures of \<open>check_file_only\<close>: the number of distinct \<open>Block n\<close> prefixes
  among the warnings is subtracted from the number of blocks.
\<close>

definition warning_blocks :: "warning list \<Rightarrow> nat" where
  "warning_blocks ws = length (remdups (map warning_block ws))"

definition compliant_blocks :: "validation_results \<Rightarrow> int" where
  "compliant_blocks r = int (total_blocks (stats r)) - int (warning_blocks (warnings r))"

definition compliance_rate :: "validation_results \<Rightarrow> pyfloat" where
  "compliance_rate r =
     (if total_blocks (stats r) > 0
      then float_mul (int_truediv (compliant_blocks r) (int (total_blocks (stats r)))) 100 else 0)"

section \<open>More Python string operations\<close>

text \<open>The slices \<open>s[:k]\<close> and \<open>s[k:]\<close>; a negative \<open>k\<close> counts from the end.\<close>

definition py_take :: "int \<Rightarrow> 'a list \<Rightarrow> 'a list" where
  "py_take k s = (if 0 \<le> k then take (nat k) s else take (nat (int (length s) + k)) s)"

definition py_drop :: "int \<Rightarrow> 'a list \<Rightarrow> 'a list" where
  "py_drop k s = (if 0 \<le> k then drop (nat k) s else drop (nat (int (length s) + k)) s)"

text \<open>\<open>s.split()\<close>: the maximal runs of characters that are not whitespace.\<close>

fun split_ws_acc :: "ustr \<Rightarrow> ustr \<Rightarrow> ustr list" where
  "split_ws_acc word [] = (if word = [] then [] else [word])"
| "split_ws_acc word (c # cs) =
     (if py_isspace c then (if word = [] then [] else [word]) @ split_ws_acc [] cs
      else split_ws_acc (word @ [c]) cs)"

definition py_split_ws :: "ustr \<Rightarrow> ustr list" where
  "py_split_ws s = split_ws_acc [] s"

text \<open>\<open>s.strip(chars)\<close>.\<close>

definition strip_chars :: "ustr \<Rightarrow> ustr \<Rightarrow> ustr" where
  "strip_chars chars s =
     rev (dropWhile (\<lambda>c. c \<in> set chars) (rev (dropWhile (\<lambda>c. c \<in> set chars) s)))"

text \<open>\<open>s.find(sub)\<close>: the first index where \<open>sub\<close> occurs, or \<open>-1\<close>.\<close>

fun find_from :: "nat \<Rightarrow> ustr \<Rightarrow> ustr \<Rightarrow> int" where
  "find_from i sub [] = (if sub = [] then int i else -1)"
| "find_from i sub (c # cs) =
     (if startswith (c # cs) sub then int i else find_from (i + 1) sub cs)"

definition py_find :: "ustr \<Rightarrow> ustr \<Rightarrow> int" where
  "py_find s sub = find_from 0 sub s"

text \<open>
  The loop \<open>for i in range(lo + n - 1, lo - 1, -1)\<close> that returns at the first index where
  the test holds: the largest index in \<open>[lo, lo + n)\<close> that passes, if there is one.
\<close>

fun scan_down :: "(nat \<Rightarrow> bool) \<Rightarrow> nat \<Rightarrow> nat \<Rightarrow> nat option" where
  "scan_down P lo 0 = None"
| "scan_down P lo (Suc n) = (if P (lo + n) then Some (lo + n) else scan_down P lo n)"

section \<open>Line engines (processors/chinese.py, english.py, korean.py)\<close>

subsection \<open>Dialogue format, the same in the three engines\<close>

text \<open>
  \<open>re.match(r"^-\s*(.*)$", line)\<close> on a stripped line, giving group 1.  The dot does not
  match a newline, so there is no match when a newline is left after the leading
  whitespace.
\<close>

definition dialogue_pattern :: "ustr \<Rightarrow> ustr option" where
  "dialogue_pattern line =
     (case line of
        [] \<Rightarrow> None
      | c # rest \<Rightarrow>
          if c = 0x2D then
            (let body = dropWhile py_isspace rest
             in if 0x0A \<in> set body then None else Some body)
          else None)"

fun process_dialogue_format :: "ustr list \<Rightarrow> ustr list" where
  "process_dialogue_format [] = []"
| "process_dialogue_format (l # ls) =
     (let line = strip l
      in if line = [] then process_dialogue_format ls
         else (case dialogue_pattern line of
                 Some content \<Rightarrow> (ustr_of ''- '' @ strip content) # process_dialogue_format ls
               | None \<Rightarrow> line # process_dialogue_format ls))"

subsection \<open>Chinese engine\<close>

definition zh_punctuation :: ustr where
  "zh_punctuation = [0x3002, 0xFF01, 0xFF1F, 0xFF0C, 0xFF1A, 0xFF1B, 0x27, 0x27, 0xFF08, 0xFF09,
                      0x3010, 0x3011, 0x300A, 0x300B]"

definition zh_helper_words :: "ustr list" where
  "zh_helper_words = [[0x7684], [0x5730], [0x5F97], [0x4E86], [0x5427], [0x5462], [0x554A],
                       [0x54E6], [0x55EF], [0x5440], [0x54C7], [0x5417], [0x561B]]"

definition zh_sentence_endings :: ustr where
  "zh_sentence_endings = [0x3002, 0xFF01, 0xFF1F]"

definition zh_should_merge_with_current :: "ProcessingConfig \<Rightarrow> ustr \<Rightarrow> ustr \<Rightarrow> bool" where
  "zh_should_merge_with_current cfg current next_line =
     (if current = [] then False
      else if last current \<in> set zh_sentence_endings then False
      else
        (let current_is_dialogue = startswith current (ustr_of ''- '');
             next_is_dialogue = startswith next_line (ustr_of ''- '')
         in if current_is_dialogue \<noteq> next_is_dialogue then False
            else
              (let merged_length = length current + length next_line;
                   char_limit = get_character_limit cfg (config_language cfg)
               in merged_length \<le> char_limit)))"

text \<open>The loop of \<open>_smart_merge_lines\<close>, on the state \<open>(merged_lines, current_line)\<close>.\<close>

fun zh_merge_loop :: "ProcessingConfig \<Rightarrow> ustr list \<Rightarrow> ustr \<Rightarrow> ustr list \<Rightarrow> ustr list \<times> ustr" where
  "zh_merge_loop cfg merged_lines current_line [] = (merged_lines, current_line)"
| "zh_merge_loop cfg merged_lines current_line (l # ls) =
     (let line = strip l
      in if line = [] then zh_merge_loop cfg merged_lines current_line ls
         else if zh_should_merge_with_current cfg current_line line then
           (if current_line \<noteq> [] then zh_merge_loop cfg merged_lines (current_line @ line) ls
            else zh_merge_loop cfg merged_lines line ls)
         else
           (if current_line \<noteq> [] then zh_merge_loop cfg (merged_lines @ [current_line]) line ls
            else zh_merge_loop cfg merged_lines line ls))"

definition zh_smart_merge_lines :: "ProcessingConfig \<Rightarrow> ustr list \<Rightarrow> ustr list" where
  "zh_smart_merge_lines cfg ls =
     (if length ls \<le> 1 then ls
      else
        (case zh_merge_loop cfg [] [] ls of
           (merged_lines, current_line) \<Rightarrow>
             if current_line \<noteq> [] then merged_lines @ [current_line] else merged_lines))"

definition zh_find_best_break_position :: "ustr \<Rightarrow> nat \<Rightarrow> int" where
  "zh_find_best_break_position line limit =
     (let search_start = nat (max 0 (int limit - 10));
          search_end = min (length line) (limit + 3);
          n = search_end - search_start
      in case scan_down (\<lambda>i. i < length line \<and> [line ! i] \<in> set zh_helper_words \<and> i + 1 \<le> limit)
                search_start n of
           Some i \<Rightarrow> int i + 1
         | None \<Rightarrow>
             (case scan_down (\<lambda>i. i < length line \<and> line ! i \<in> set zh_punctuation \<and> i + 1 \<le> limit)
                     search_start n of
                Some i \<Rightarrow> int i + 1
              | None \<Rightarrow>
                  (case scan_down (\<lambda>i. i < length line \<and> line ! i = 0x20 \<and> i \<le> limit)
                          search_start n of
                     Some i \<Rightarrow> int i
                   | None \<Rightarrow> -1)))"

partial_function (option)
  zh_break_line_intelligently :: "ProcessingConfig \<Rightarrow> ustr \<Rightarrow> ustr list option" where
  "zh_break_line_intelligently cfg line =
     (let char_limit = get_character_limit cfg (config_language cfg)
      in if length line \<le> char_limit then Some [line]
         else if int (length line) - int char_limit < 3 then Some [line]
         else
           (let found = zh_find_best_break_position line char_limit;
                break_pos = (if found = -1 then int char_limit else found);
                first_part = rstrip (py_take break_pos line);
                second_part = lstrip (py_drop break_pos line)
            in if length second_part < 5 then Some [line]
               else if second_part \<noteq> [] \<and> length second_part < length line then
                 Option.bind (zh_break_line_intelligently cfg second_part)
                   (\<lambda>rest. Some (first_part # rest))
               else Some [first_part]))"

declare zh_break_line_intelligently.simps [code]

subsection \<open>English engine\<close>

text \<open>
  \<open>str.lower\<close> follows the Unicode case tables of the Python runtime, which are not part of
  this program: the English engine takes the lower-casing function as the parameter
  \<open>lower\<close>.  \<open>ascii_lower\<close> is that function on ASCII text.
\<close>

definition ascii_lower :: "ustr \<Rightarrow> ustr" where
  "ascii_lower s = map (\<lambda>c. if in_range 0x41 0x5A c then c + 32 else c) s"

definition en_conjunctions :: "ustr list" where
  "en_conjunctions = map ustr_of
     [''and'', ''but'', ''or'', ''nor'', ''for'', ''so'', ''yet'', ''because'', ''since'',
      ''although'', ''though'', ''while'', ''whereas'', ''however'', ''therefore'', ''moreover'',
      ''furthermore'', ''nevertheless'', ''nonetheless'']"

definition en_prepositions :: "ustr list" where
  "en_prepositions = map ustr_of
     [''in'', ''on'', ''at'', ''by'', ''for'', ''with'', ''from'', ''to'', ''of'', ''about'',
      ''under'', ''over'', ''through'', ''between'', ''among'', ''during'', ''before'', ''after'',
      ''above'', ''below'', ''across'', ''around'', ''behind'', ''beside'']"

definition en_sentence_endings :: ustr where
  "en_sentence_endings = [0x2E, 0x21, 0x3F]"

definition en_punctuation :: ustr where
  "en_punctuation = [0x2E, 0x2C, 0x21, 0x3F, 0x3B, 0x3A, 0x22, 0x5C, 0x27, 0x28, 0x29, 0x5B, 0x5D,
                      0x7B, 0x7D, 0x2014, 0x2013, 0x2D]"

text \<open>
  The loop over \<open>words_before_limit\<close> for one word table: the position of the first listed
  word, as \<open>line.lower().find\<close> gives it, that lies in the search window.
\<close>

fun en_word_break :: "(ustr \<Rightarrow> ustr) \<Rightarrow> ustr list \<Rightarrow> ustr \<Rightarrow> nat \<Rightarrow> nat \<Rightarrow> ustr list \<Rightarrow> int option" where
  "en_word_break lower table line search_start search_end [] = None"
| "en_word_break lower table line search_start search_end (word # ws) =
     (let clean_word = strip_chars en_punctuation (lower word)
      in if clean_word \<in> set table then
           (let word_pos = py_find (lower line) clean_word
            in if int search_start \<le> word_pos \<and> word_pos \<le> int search_end then Some word_pos
               else en_word_break lower table line search_start search_end ws)
         else en_word_break lower table line search_start search_end ws)"

definition en_find_best_break_position :: "(ustr \<Rightarrow> ustr) \<Rightarrow> ustr \<Rightarrow> nat \<Rightarrow> int" where
  "en_find_best_break_position lower line limit =
     (let search_start = nat (max 0 (int limit - 20));
          search_end = min (length line) limit
      in case scan_down (\<lambda>i. i < length line \<and> line ! i \<in> set [0x2E, 0x2C, 0x21, 0x3F, 0x3B, 0x3A])
                search_start (search_end - search_start) of
           Some i \<Rightarrow> int i + 1
         | None \<Rightarrow>
             (let words_before_limit = py_split_ws (take limit line)
              in case en_word_break lower en_conjunctions line search_start search_end
                        words_before_limit of
                   Some word_pos \<Rightarrow> word_pos
                 | None \<Rightarrow>
                     (case en_word_break lower en_prepositions line search_start search_end
                             words_before_limit of
                        Some word_pos \<Rightarrow> word_pos
                      | None \<Rightarrow> -1)))"

definition en_find_word_boundary_break :: "ustr \<Rightarrow> nat \<Rightarrow> int" where
  "en_find_word_boundary_break line limit =
     (let search_start = nat (max 0 (int limit - 15));
          search_end = min (length line) (limit + 5)
      in case scan_down (\<lambda>i. i < length line \<and> line ! i = 0x20) search_start
                (search_end - search_start) of
           Some i \<Rightarrow> int i
         | None \<Rightarrow> -1)"

definition en_should_break_line :: "(ustr \<Rightarrow> ustr) \<Rightarrow> ustr \<Rightarrow> nat \<Rightarrow> bool" where
  "en_should_break_line lower line char_limit =
     (if length line \<le> char_limit then False
      else
        (let remaining_text = strip (drop char_limit line)
         in if remaining_text = [] then False
            else
              (let remaining_words = py_split_ws remaining_text
               in if length remaining_words < 4 then False
                  else
                    (let break_pos = en_find_best_break_position lower line char_limit
                     in if break_pos > 0 then
                          (let second_part = strip (py_drop break_pos line)
                           in if length second_part < 20 then False
                              else
                                (let second_part_words = py_split_ws second_part
                                 in if length second_part_words < 3 then False else True))
                        else False))))"

partial_function (option)
  en_break_line_intelligently :: "(ustr \<Rightarrow> ustr) \<Rightarrow> ProcessingConfig \<Rightarrow> ustr \<Rightarrow> ustr list option" where
  "en_break_line_intelligently lower cfg line =
     (let char_limit = get_character_limit cfg (config_language cfg)
      in if length line \<le> char_limit then Some [line]
         else if \<not> en_should_break_line lower line char_limit then Some [line]
         else
           (let found = en_find_best_break_position lower line char_limit;
                found2 = (if found = -1 then en_find_word_boundary_break line char_limit else found);
                break_pos = (if found2 = -1 then int char_limit else found2);
                first_part = rstrip (py_take break_pos line);
                second_part = lstrip (py_drop break_pos line)
            in if second_part \<noteq> [] \<and> length second_part < length line then
                 Option.bind (en_break_line_intelligently lower cfg second_part)
                   (\<lambda>rest. Some (first_part # rest))
               else Some [first_part]))"

declare en_break_line_intelligently.simps [code]

subsection \<open>Korean engine\<close>

definition ko_punctuation :: ustr where
  "ko_punctuation = [0x3002, 0xFF01, 0xFF1F, 0xFF0C, 0xFF1A, 0xFF1B, 0x27, 0x27, 0xFF08, 0xFF09,
                      0x3010, 0x3011, 0x300A, 0x300B]"

definition ko_helper_particles :: "ustr list" where
  "ko_helper_particles =
     [[0xC740], [0xB294], [0xC774], [0xAC00], [0xC744], [0xB97C], [0xC5D0], [0xC5D0, 0xC11C],
      [0xB85C], [0xC73C, 0xB85C], [0xC640], [0xACFC], [0xC758], [0xB3C4], [0xB9CC],
      [0xAE4C, 0xC9C0], [0xBD80, 0xD130], [0xBCF4, 0xB2E4], [0xCC98, 0xB7FC], [0xB2E4], [0xC694],
      [0xC8E0], [0xB124], [0xC9C0], [0xB2C8], [0xAE4C], [0xC57C], [0xC544], [0xC5B4], [0xACE0],
      [0xC11C], [0xBA74], [0xB824, 0xACE0], [0xD558, 0xACE0], [0xB54C, 0xBB38, 0xC5D0],
      [0xAC00, 0xC9C0, 0xACE0]]"

definition ko_sentence_endings :: ustr where
  "ko_sentence_endings = [0x3002, 0xFF01, 0xFF1F]"

definition ko_find_best_break_position :: "ustr \<Rightarrow> nat \<Rightarrow> int" where
  "ko_find_best_break_position line limit =
     (let search_start = nat (max 0 (int limit - 8));
          search_end = min (length line) (limit + 3);
          n = search_end - search_start
      in case scan_down (\<lambda>i. i < length line \<and> line ! i = 0x20 \<and> i \<le> limit) search_start n of
           Some i \<Rightarrow> int i
         | None \<Rightarrow>
             (case scan_down
                     (\<lambda>i. i + 2 \<le> length line \<and> take 2 (drop i line) \<in> set ko_helper_particles \<and>
                          i + 2 \<le> limit)
                     search_start (search_end - 1 - search_start) of
                Some i \<Rightarrow> int i + 2
              | None \<Rightarrow>
                  (case scan_down
                          (\<lambda>i. i < length line \<and> [line ! i] \<in> set ko_helper_particles \<and> i + 1 \<le> limit)
                          search_start n of
                     Some i \<Rightarrow> int i + 1
                   | None \<Rightarrow>
                       (case scan_down
                               (\<lambda>i. i < length line \<and> line ! i \<in> set ko_punctuation \<and> i + 1 \<le> limit)
                               search_start n of
                          Some i \<Rightarrow> int i + 1
                        | None \<Rightarrow> -1))))"

partial_function (option)
  ko_break_line_intelligently :: "ProcessingConfig \<Rightarrow> ustr \<Rightarrow> ustr list option" where
  "ko_break_line_intelligently cfg line =
     (let char_limit = get_character_limit cfg (config_language cfg)
      in if length line \<le> char_limit then Some [line]
         else if int (length line) - int char_limit < 3 then Some [line]
         else
           (let found = ko_find_best_break_position line char_limit;
                break_pos = (if found = -1 then int char_limit else found);
                first_part = rstrip (py_take break_pos line);
                second_part = lstrip (py_drop break_pos line)
            in if length second_part < 4 then Some [line]
               else if second_part \<noteq> [] \<and> length second_part < length line then
                 Option.bind (ko_break_line_intelligently cfg second_part)
                   (\<lambda>rest. Some (first_part # rest))
               else Some [first_part]))"

declare ko_break_line_intelligently.simps [code]


section \<open>SDH detection and removal (models/subtitle.py)\<close>

text \<open>\<open>re.match("^g+$", text)\<close> for one glyph \<open>g\<close>, on a text with no trailing newline.\<close>

definition music_pattern :: "int \<Rightarrow> ustr \<Rightarrow> bool" where
  "music_pattern g s = (s \<noteq> [] \<and> list_all (\<lambda>c. c = g) s)"

text \<open>
  \<open>re.match("^O\s*.*?\s*C$", text)\<close> for an opening bracket \<open>O\<close> and a closing bracket \<open>C\<close>:
  the text starts with \<open>O\<close>, ends with \<open>C\<close>, and what lies between, without its leading
  and trailing whitespace, holds no newline (the dot does not match one).
\<close>

definition audio_description_pattern :: "int \<times> int \<Rightarrow> ustr \<Rightarrow> bool" where
  "audio_description_pattern p s =
     (2 \<le> length s \<and> hd s = fst p \<and> last s = snd p \<and> 0x0A \<notin> set (strip (butlast (tl s))))"

definition music_glyphs :: "int list" where
  "music_glyphs = [0x266A, 0x1F3B5, 0x1F3B6]"

definition audio_description_brackets :: "(int \<times> int) list" where
  "audio_description_brackets =
     [(0x5B, 0x5D), (0x28, 0x29), (0xFF08, 0xFF09), (0x3010, 0x3011), (0x300A, 0x300B),
      (0xFF3B, 0xFF3D), (0x3014, 0x3015), (0x3008, 0x3009)]"

text \<open>
  The number of characters up to and including the first closing bracket, if there is one;
  with \<open>dot\<close> set, a newline before it leaves no match (pattern \<open>O.*?C\<close>), without it any
  character but the bracket may come before (pattern \<open>O\s*[^C]*\s*C\<close>).
\<close>

fun span_length :: "bool \<Rightarrow> int \<Rightarrow> ustr \<Rightarrow> nat option" where
  "span_length dot close [] = None"
| "span_length dot close (c # cs) =
     (if c = close then Some 1
      else if dot \<and> c = 0x0A then None
      else map_option Suc (span_length dot close cs))"

text \<open>
  \<open>re.sub\<close> of an alternation of bracket spans by the empty string, scanning from the left;
  \<open>skip\<close> counts the characters of a matched span still to be dropped.
\<close>

fun sub_spans :: "bool \<Rightarrow> (int \<times> int) list \<Rightarrow> nat \<Rightarrow> ustr \<Rightarrow> ustr" where
  "sub_spans dot pairs skip [] = []"
| "sub_spans dot pairs (Suc k) (c # cs) = sub_spans dot pairs k cs"
| "sub_spans dot pairs 0 (c # cs) =
     (case map_of pairs c of
        None \<Rightarrow> c # sub_spans dot pairs 0 cs
      | Some close \<Rightarrow>
          (case span_length dot close cs of
             None \<Rightarrow> c # sub_spans dot pairs 0 cs
           | Some n \<Rightarrow> sub_spans dot pairs n cs))"

text \<open>\<open>re.sub(r"^-\s*", repl, s)\<close>.\<close>

definition sub_leading_dash :: "ustr \<Rightarrow> ustr \<Rightarrow> ustr" where
  "sub_leading_dash repl s =
     (case s of
        [] \<Rightarrow> []
      | c # cs \<Rightarrow> if c = 0x2D then repl @ dropWhile py_isspace cs else s)"

text \<open>The test on one line in the loop of \<open>is_sdh_only_block\<close>: nothing is left of it.\<close>

definition line_is_pure_sdh :: "ustr \<Rightarrow> bool" where
  "line_is_pure_sdh l =
     (let line = strip l
      in if line = [] then True
         else
           (let temp1 = filter (\<lambda>c. c \<notin> set music_glyphs) line;
                temp2 = sub_spans True [(0x5B, 0x5D), (0x28, 0x29), (0x3010, 0x3011), (0x300A, 0x300B)]
                          0 temp1;
                temp3 = strip (sub_leading_dash [] temp2)
            in temp3 = []))"

definition is_sdh_only_block :: "SubtitleBlock \<Rightarrow> bool" where
  "is_sdh_only_block b =
     (if lines b = [] then False
      else
        (let full_text = strip (text_of b)
         in if full_text = [] then False
            else if list_ex (\<lambda>g. music_pattern g full_text) music_glyphs then True
            else if list_ex (\<lambda>p. audio_description_pattern p full_text) audio_description_brackets
              then True
            else list_all line_is_pure_sdh (lines b)))"

text \<open>\<open>re.sub(r"\s+", " ", text)\<close>; \<open>in_run\<close> tells that the previous character was whitespace.\<close>

fun squeeze_ws :: "bool \<Rightarrow> ustr \<Rightarrow> ustr" where
  "squeeze_ws in_run [] = []"
| "squeeze_ws in_run (c # cs) =
     (if py_isspace c then (if in_run then squeeze_ws True cs else 0x20 # squeeze_ws True cs)
      else c # squeeze_ws False cs)"

text \<open>\<open>re.sub(r"^-\s*-\s*", "- ", s)\<close>.\<close>

definition sub_double_dash :: "ustr \<Rightarrow> ustr" where
  "sub_double_dash s =
     (case s of
        [] \<Rightarrow> []
      | c # cs \<Rightarrow>
          if c = 0x2D then
            (case dropWhile py_isspace cs of
               [] \<Rightarrow> s
             | d # ds \<Rightarrow> if d = 0x2D then ustr_of ''- '' @ dropWhile py_isspace ds else s)
          else s)"

definition clean_whitespace :: "ustr \<Rightarrow> ustr" where
  "clean_whitespace t =
     (let cleaned1 = squeeze_ws False t;
          cleaned2 = sub_leading_dash (ustr_of ''- '') cleaned1;
          cleaned3 = sub_double_dash cleaned2;
          cleaned = strip cleaned3
      in if cleaned = [0x2D] then [] else cleaned)"

datatype sdh_pattern = Span int int | Glyphs int

definition sdh_patterns :: "sdh_pattern list" where
  "sdh_patterns =
     [Span 0x5B 0x5D, Span 0x28 0x29, Span 0xFF08 0xFF09, Span 0x3010 0x3011, Span 0x300A 0x300B,
      Glyphs 0x266A, Glyphs 0x1F3B5, Glyphs 0x1F3B6,
      Span 0xFF3B 0xFF3D, Span 0x3014 0x3015, Span 0x3008 0x3009, Span 0x300C 0x300D]"

fun sub_sdh_pattern :: "sdh_pattern \<Rightarrow> ustr \<Rightarrow> ustr" where
  "sub_sdh_pattern (Span opening closing) s = sub_spans False [(opening, closing)] 0 s"
| "sub_sdh_pattern (Glyphs g) s = filter (\<lambda>c. c \<noteq> g) s"

definition remove_sdh_from_line :: "ustr \<Rightarrow> ustr" where
  "remove_sdh_from_line line =
     clean_whitespace (foldl (\<lambda>cleaned pattern. sub_sdh_pattern pattern cleaned) line sdh_patterns)"

fun cleaned_lines_of :: "ustr list \<Rightarrow> ustr list" where
  "cleaned_lines_of [] = []"
| "cleaned_lines_of (l # ls) =
     (let original_line = strip l
      in if original_line = [] then cleaned_lines_of ls
         else
           (let cleaned_line = remove_sdh_from_line original_line
            in if strip cleaned_line \<noteq> [] then cleaned_line # cleaned_lines_of ls
               else cleaned_lines_of ls))"

definition clean_sdh_markers :: "SubtitleBlock \<Rightarrow> SubtitleBlock" where
  "clean_sdh_markers b = b\<lparr>lines := cleaned_lines_of (lines b)\<rparr>"

text \<open>The first loop of \<open>remove_sdh_blocks_and_clean_content\<close>, giving \<open>processed_blocks\<close>.\<close>

fun sdh_processed_blocks :: "SubtitleBlock list \<Rightarrow> SubtitleBlock list" where
  "sdh_processed_blocks [] = []"
| "sdh_processed_blocks (b # bs) =
     (if is_sdh_only_block b then sdh_processed_blocks bs
      else
        (let cleaned_block = clean_sdh_markers b
         in if lines cleaned_block \<noteq> [] \<and> list_ex (\<lambda>line. strip line \<noteq> []) (lines cleaned_block)
            then cleaned_block # sdh_processed_blocks bs
            else sdh_processed_blocks bs))"

text \<open>The second loop: \<open>block.index = i + 1\<close> over \<open>enumerate\<close>, from position \<open>i\<close> on.\<close>

fun resort_indices :: "int \<Rightarrow> SubtitleBlock list \<Rightarrow> SubtitleBlock list" where
  "resort_indices i [] = []"
| "resort_indices i (b # bs) = b\<lparr>index := i + 1\<rparr> # resort_indices (i + 1) bs"

definition remove_sdh_blocks_and_clean_content :: "SRTDocument \<Rightarrow> SRTDocument" where
  "remove_sdh_blocks_and_clean_content doc =
     doc\<lparr>blocks := resort_indices 0 (sdh_processed_blocks (blocks doc))\<rparr>"


section \<open>Parser (core/parser.py)\<close>

subsection \<open>Digits\<close>

text \<open>
  Which characters are digits is decided by the Unicode database of the Python runtime,
  which is not part of this program; the parser takes it as the parameter \<open>U\<close>.
  \<open>decimal_value\<close> gives the value of a decimal digit (the characters that \<open>\d\<close> matches and
  \<open>int\<close> reads); \<open>other_digit\<close> holds for the further characters that \<open>str.isdigit\<close> accepts.
  \<open>ascii_digits\<close> is the table with the ASCII digits only.
\<close>

record ucd =
  decimal_value :: "int \<Rightarrow> int option"
  other_digit :: "int \<Rightarrow> bool"

definition ascii_digits :: ucd where
  "ascii_digits =
     \<lparr> decimal_value = (\<lambda>c. if in_range 0x30 0x39 c then Some (c - 0x30) else None),
       other_digit = (\<lambda>c. False) \<rparr>"

text \<open>What every such table satisfies: the ASCII digits have their values, a digit value is
  between 0 and 9, and no digit is whitespace or one of \<open>+ - _ : ,\<close>.\<close>

definition ucd_ok :: "ucd \<Rightarrow> bool" where
  "ucd_ok U =
     ((\<forall>c. in_range 0x30 0x39 c \<longrightarrow> decimal_value U c = Some (c - 0x30)) \<and>
      (\<forall>c d. decimal_value U c = Some d \<longrightarrow> 0 \<le> d \<and> d \<le> 9) \<and>
      (\<forall>c. decimal_value U c \<noteq> None \<or> other_digit U c \<longrightarrow>
           \<not> py_isspace c \<and> c \<notin> {0x2B, 0x2D, 0x5F, 0x3A, 0x2C}))"

definition is_decimal :: "ucd \<Rightarrow> int \<Rightarrow> bool" where
  "is_decimal U c = (decimal_value U c \<noteq> None)"

text \<open>\<open>s.isdigit()\<close>.\<close>

definition py_isdigit :: "ucd \<Rightarrow> ustr \<Rightarrow> bool" where
  "py_isdigit U s = (s \<noteq> [] \<and> list_all (\<lambda>c. is_decimal U c \<or> other_digit U c) s)"

text \<open>
  \<open>int(s)\<close>: surrounding whitespace is dropped, a sign may come first, then decimal digits,
  where single underscores may stand between digits; \<open>None\<close> is the \<open>ValueError\<close>.
  \<open>prev\<close> tells that the previous character was a digit.
\<close>

fun int_digits :: "ucd \<Rightarrow> bool \<Rightarrow> int \<Rightarrow> ustr \<Rightarrow> int option" where
  "int_digits U prev acc [] = (if prev then Some acc else None)"
| "int_digits U prev acc (c # cs) =
     (if c = 0x5F then (if prev then int_digits U False acc cs else None)
      else (case decimal_value U c of
              None \<Rightarrow> None
            | Some d \<Rightarrow> int_digits U True (acc * 10 + d) cs))"

definition py_int :: "ucd \<Rightarrow> ustr \<Rightarrow> int option" where
  "py_int U s =
     (case strip s of
        [] \<Rightarrow> None
      | c # cs \<Rightarrow>
          if c = 0x2D then map_option uminus (int_digits U False 0 cs)
          else if c = 0x2B then int_digits U False 0 cs
          else int_digits U False 0 (c # cs))"

subsection \<open>Splitting\<close>

text \<open>\<open>s.split(c)\<close> for a separator of one character.\<close>

fun split_on :: "int \<Rightarrow> ustr \<Rightarrow> ustr list" where
  "split_on sep [] = [[]]"
| "split_on sep (c # cs) =
     (if c = sep then [] # split_on sep cs
      else (case split_on sep cs of
              [] \<Rightarrow> [[c]]
            | w # ws \<Rightarrow> (c # w) # ws))"

text \<open>The index of the first occurrence of \<open>sub\<close> in \<open>s\<close>.\<close>

fun first_occurrence :: "ustr \<Rightarrow> ustr \<Rightarrow> nat option" where
  "first_occurrence sub [] = (if sub = [] then Some 0 else None)"
| "first_occurrence sub (c # cs) =
     (if startswith (c # cs) sub then Some 0 else map_option Suc (first_occurrence sub cs))"

text \<open>\<open>s.split(sep)\<close> for a separator that is not empty.\<close>

function py_split :: "ustr \<Rightarrow> ustr \<Rightarrow> ustr list" where
  "py_split sep s =
     (if sep = [] then [s]
      else (case first_occurrence sep s of
              None \<Rightarrow> [s]
            | Some p \<Rightarrow> take p s # py_split sep (drop (p + length sep) s)))"
  by pat_completeness auto
termination
proof (relation "measure (\<lambda>(sep, s). length s)")
  show "wf (measure (\<lambda>(sep, s). length s))" by simp
next
  fix sep s :: ustr and p :: nat
  assume sep: "sep \<noteq> []" and occ: "first_occurrence sep s = Some p"
  have "s \<noteq> []"
    using sep occ by (cases s) auto
  with sep show "((sep, drop (p + length sep) s), (sep, s)) \<in> measure (\<lambda>(sep, s). length s)"
    by (cases sep) auto
qed

declare py_split.simps [simp del]

subsection \<open>Time codes\<close>

text \<open>The text starts with \<open>\d{2}:\d{2}:\d{2},\d{3}\<close>.\<close>

definition time_stamp_prefix :: "ucd \<Rightarrow> ustr \<Rightarrow> bool" where
  "time_stamp_prefix U s =
     (12 \<le> length s \<and>
      is_decimal U (s ! 0) \<and> is_decimal U (s ! 1) \<and> s ! 2 = 0x3A \<and>
      is_decimal U (s ! 3) \<and> is_decimal U (s ! 4) \<and> s ! 5 = 0x3A \<and>
      is_decimal U (s ! 6) \<and> is_decimal U (s ! 7) \<and> s ! 8 = 0x2C \<and>
      is_decimal U (s ! 9) \<and> is_decimal U (s ! 10) \<and> is_decimal U (s ! 11))"

text \<open>\<open>time_pattern.match(s)\<close>: the pattern
  \<open>(\d{2}:\d{2}:\d{2},\d{3})\s*-->\s*(\d{2}:\d{2}:\d{2},\d{3})\<close> matches a prefix of \<open>s\<close>.\<close>

definition time_pattern_match :: "ucd \<Rightarrow> ustr \<Rightarrow> bool" where
  "time_pattern_match U s =
     (time_stamp_prefix U s \<and>
      (let after_start = dropWhile py_isspace (drop 12 s)
       in startswith after_start (ustr_of ''-->'') \<and>
          time_stamp_prefix U (dropWhile py_isspace (drop 3 after_start))))"

datatype parse_error =
  ExpectedSubtitleIndex ustr
| UnexpectedEndOfFile
| InvalidTimeFormat ustr
| NoSubtitleTextFound
| ValueError
| OverflowError

text \<open>The four numbers \<open>_parse_time\<close> reads: hours, minutes, seconds, milliseconds.\<close>

definition parse_time_fields :: "ucd \<Rightarrow> ustr \<Rightarrow> parse_error + (int \<times> int \<times> int \<times> int)" where
  "parse_time_fields U time_str =
     (case split_on 0x3A time_str of
        [hours, minutes, seconds_ms] \<Rightarrow>
          (case split_on 0x2C seconds_ms of
             [seconds, milliseconds] \<Rightarrow>
               (case (py_int U hours, py_int U minutes, py_int U seconds, py_int U milliseconds) of
                  (Some h, Some m, Some s, Some ms) \<Rightarrow> Inr (h, m, s, ms)
                | _ \<Rightarrow> Inl ValueError)
           | _ \<Rightarrow> Inl ValueError)
      | _ \<Rightarrow> Inl ValueError)"

text \<open>\<open>timedelta(hours=h, minutes=m, seconds=s, milliseconds=ms)\<close> in microseconds; a
  \<open>timedelta\<close> holds at most 999999999 days either way.\<close>

definition timedelta :: "int \<times> int \<times> int \<times> int \<Rightarrow> parse_error + int" where
  "timedelta f =
     (case f of (h, m, s, ms) \<Rightarrow>
        (let us = (((h * 60 + m) * 60 + s) * 1000 + ms) * 1000
         in if us < - (999999999 * 86400000000) \<or> 1000000000 * 86400000000 \<le> us
            then Inl OverflowError else Inr us))"

definition parse_time :: "ucd \<Rightarrow> ustr \<Rightarrow> parse_error + int" where
  "parse_time U time_str =
     (case parse_time_fields U time_str of Inl e \<Rightarrow> Inl e | Inr f \<Rightarrow> timedelta f)"

definition from_srt_time :: "ucd \<Rightarrow> ustr \<Rightarrow> parse_error + TimeCode" where
  "from_srt_time U time_str =
     (case py_split (ustr_of '' --> '') time_str of
        [start_str, end_str] \<Rightarrow>
          (case parse_time U start_str of
             Inl e \<Rightarrow> Inl e
           | Inr start \<Rightarrow>
               (case parse_time U end_str of
                  Inl e \<Rightarrow> Inl e
                | Inr end_time \<Rightarrow> Inr \<lparr> tc_start = start, tc_end = end_time \<rparr>))
      | _ \<Rightarrow> Inl ValueError)"

text \<open>The time-code step of \<open>_parse_block\<close>: the pattern test, then \<open>from_srt_time\<close>.\<close>

definition parse_time_code :: "ucd \<Rightarrow> ustr \<Rightarrow> parse_error + TimeCode" where
  "parse_time_code U time_line =
     (if \<not> time_pattern_match U time_line then Inl (InvalidTimeFormat time_line)
      else from_srt_time U time_line)"

subsection \<open>Blocks\<close>

text \<open>
  The loop that collects the text lines of a block, on the lines from \<open>current_line\<close> on:
  the collected lines and the lines left, which start at the line the loop stopped at.
\<close>

fun collect_text_lines :: "ucd \<Rightarrow> ustr list \<Rightarrow> ustr list \<times> ustr list" where
  "collect_text_lines U [] = ([], [])"
| "collect_text_lines U (line # rest) =
     (let stripped_line = strip line
      in if py_isdigit U stripped_line \<and> rest \<noteq> [] \<and> time_pattern_match U (strip (hd rest))
         then ([], line # rest)
         else (case collect_text_lines U rest of
                 (text_lines, remaining) \<Rightarrow> (rstrip line # text_lines, remaining)))"

text \<open>The test that ends the loop, on the lines from the current one on: the current line
  is a bare integer and the line after it starts with a time code.\<close>

definition next_block_starts :: "ucd \<Rightarrow> ustr list \<Rightarrow> bool" where
  "next_block_starts U ls =
     (case ls of
        [] \<Rightarrow> False
      | line # rest \<Rightarrow>
          py_isdigit U (strip line) \<and> rest \<noteq> [] \<and> time_pattern_match U (strip (hd rest)))"

definition remove_trailing_empty :: "ustr list \<Rightarrow> ustr list" where
  "remove_trailing_empty text_lines = rev (dropWhile (\<lambda>l. strip l = []) (rev text_lines))"

text \<open>\<open>_parse_block\<close> on the lines from \<open>start_line\<close> on; it returns the block, if there is
  one, and the lines from \<open>next_line\<close> on.\<close>

definition parse_block :: "ucd \<Rightarrow> ustr list \<Rightarrow> parse_error + (SubtitleBlock option \<times> ustr list)" where
  "parse_block U ls =
     (case dropWhile (\<lambda>l. strip l = []) ls of
        [] \<Rightarrow> Inr (None, [])
      | l # rest \<Rightarrow>
          (let index_line = strip l
           in if \<not> py_isdigit U index_line then Inl (ExpectedSubtitleIndex index_line)
              else
                (case py_int U index_line of
                   None \<Rightarrow> Inl ValueError
                 | Some idx \<Rightarrow>
                     (case rest of
                        [] \<Rightarrow> Inl UnexpectedEndOfFile
                      | t # rest2 \<Rightarrow>
                          (case parse_time_code U (strip t) of
                             Inl e \<Rightarrow> Inl e
                           | Inr tc \<Rightarrow>
                               (case collect_text_lines U rest2 of
                                  (raw_lines, remaining) \<Rightarrow>
                                    (let text_lines = remove_trailing_empty raw_lines
                                     in if text_lines = [] then Inl NoSubtitleTextFound
                                        else Inr (Some \<lparr> index = idx, time_code = tc,
                                                         lines = text_lines, language = None,
                                                         is_sdh = False \<rparr>,
                                                  remaining))))))))"

text \<open>
  The loop of \<open>_parse_content\<close> on the lines from \<open>current_line\<close> on, where \<open>n_lines\<close> is the
  number of all lines; an error carries the one-based number of the line the block
  started at.
\<close>

function parse_blocks_loop :: "ucd \<Rightarrow> nat \<Rightarrow> ustr list \<Rightarrow> (parse_error \<times> nat) + SubtitleBlock list" where
  "parse_blocks_loop U n_lines [] = Inr []"
| "parse_blocks_loop U n_lines (l # ls) =
     (case parse_block U (l # ls) of
        Inl e \<Rightarrow> Inl (e, n_lines - length (l # ls) + 1)
      | Inr (blk, remaining) \<Rightarrow>
          (case parse_blocks_loop U n_lines remaining of
             Inl e \<Rightarrow> Inl e
           | Inr bs \<Rightarrow> Inr (case blk of None \<Rightarrow> bs | Some b \<Rightarrow> b # bs)))"
  by pat_completeness auto
termination
proof (relation "measure (\<lambda>(U, n_lines, ls). length ls)")
  show "wf (measure (\<lambda>(U, n_lines, ls). length ls))" by simp
next
  fix U :: ucd and n_lines :: nat and l :: ustr and ls :: "ustr list"
    and x :: "SubtitleBlock option \<times> ustr list" and blk remaining
  assume pb: "parse_block U (l # ls) = Inr x" and x: "(blk, remaining) = x"
  have c: "length (snd (collect_text_lines U xs)) \<le> length xs" for xs
    by (induction xs) (auto simp: Let_def split: prod.splits)
  have d: "length (dropWhile (\<lambda>l. strip l = []) (l # ls)) \<le> length (l # ls)"
    by (rule length_dropWhile_le)
  have "length remaining < length (l # ls)"
  proof (cases "dropWhile (\<lambda>l. strip l = []) (l # ls)")
    case Nil
    with pb x show ?thesis by (auto simp: parse_block_def)
  next
    case (Cons a rest)
    with pb x obtain t rest2 where r: "rest = t # rest2"
      and rem: "remaining = snd (collect_text_lines U rest2)"
      by (auto simp: parse_block_def Let_def split: if_splits option.splits list.splits
          sum.splits prod.splits)
    from c[of rest2] rem have "length remaining \<le> length rest2" by simp
    with d Cons r show ?thesis by simp
  qed
  then show "((U, n_lines, remaining), (U, n_lines, l # ls)) \<in> measure (\<lambda>(U, n_lines, ls). length ls)"
    by simp
qed

definition parse_content_blocks :: "ucd \<Rightarrow> ustr \<Rightarrow> (parse_error \<times> nat) + SubtitleBlock list" where
  "parse_content_blocks U content =
     (let ls = split_on 0x0A (strip content)
      in parse_blocks_loop U (length ls) ls)"

definition parse_content :: "ucd \<Rightarrow> ustr \<Rightarrow> (parse_error \<times> nat) + SRTDocument" where
  "parse_content U content =
     (case parse_content_blocks U content of
        Inl e \<Rightarrow> Inl e
      | Inr bs \<Rightarrow> Inr \<lparr> blocks = bs, source_file = None, detected_language = None,
                       encoding = ustr_of ''utf-8'' \<rparr>)"

subsection \<open>Writing\<close>

text \<open>The decimal digits of a natural number, and \<open>str(n)\<close> for an integer.\<close>

fun nat_digits :: "nat \<Rightarrow> ustr" where
  "nat_digits n = (if n < 10 then [0x30 + int n] else nat_digits (n div 10) @ [0x30 + int (n mod 10)])"

definition py_str_int :: "int \<Rightarrow> ustr" where
  "py_str_int i = (if i < 0 then 0x2D # nat_digits (nat (- i)) else nat_digits (nat i))"

text \<open>The format \<open>{i:0wd}\<close>: zeros are put after the sign up to the width \<open>w\<close>.\<close>

definition format_0d :: "nat \<Rightarrow> int \<Rightarrow> ustr" where
  "format_0d w i =
     (if i < 0 then 0x2D # replicate (w - 1 - length (nat_digits (nat (- i)))) 0x30 @ nat_digits (nat (- i))
      else replicate (w - length (nat_digits (nat i))) 0x30 @ nat_digits (nat i))"

text \<open>
  \<open>_format_time\<close>.  \<open>td.total_seconds()\<close> is a float and \<open>int\<close> drops its fraction towards
  zero, the integer divisions round down, and \<open>td.microseconds\<close> is the non-negative
  remainder.
\<close>

definition format_time :: "int \<Rightarrow> ustr" where
  "format_time td =
     (let whole_seconds = int_of_float (total_seconds td);
          hours = whole_seconds div 3600;
          minutes = (whole_seconds mod 3600) div 60;
          seconds = whole_seconds mod 60;
          milliseconds = (td mod 1000000) div 1000
      in format_0d 2 hours @ [0x3A] @ format_0d 2 minutes @ [0x3A] @ format_0d 2 seconds
         @ [0x2C] @ format_0d 3 milliseconds)"

definition time_code_to_srt_format :: "TimeCode \<Rightarrow> ustr" where
  "time_code_to_srt_format tc =
     format_time (tc_start tc) @ ustr_of '' --> '' @ format_time (tc_end tc)"

text \<open>The lines \<open>to_srt_format\<close> appends for the blocks, and the document joined.\<close>

fun srt_format_lines :: "SubtitleBlock list \<Rightarrow> ustr list" where
  "srt_format_lines [] = []"
| "srt_format_lines (b # bs) =
     [py_str_int (index b), time_code_to_srt_format (time_code b)] @ lines b @ [[]]
     @ srt_format_lines bs"

definition to_srt_format :: "SRTDocument \<Rightarrow> ustr" where
  "to_srt_format doc = py_join [0x0A] (srt_format_lines (blocks doc))"


section \<open>The engines' block processing\<close>

subsection \<open>Chinese\<close>

definition zh_apply_line_breaking :: "ProcessingConfig \<Rightarrow> ustr list \<Rightarrow> ustr list option" where
  "zh_apply_line_breaking cfg ls =
     map_option concat
       (those (map (zh_break_line_intelligently cfg) (filter (\<lambda>line. strip line \<noteq> []) ls)))"

definition zh_continuation_indicators :: "ustr list" where
  "zh_continuation_indicators =
     [[0xFF0C], [0x3001], [0x548C], [0x6216], [0x4F46], [0x800C], [0x56E0, 0x4E3A],
      [0x6240, 0x4EE5], [0x5982, 0x679C], [0x90A3, 0x4E48]]"

definition zh_is_line_continuation :: "ustr \<Rightarrow> bool" where
  "zh_is_line_continuation l =
     (let line = strip l
      in if line = [] then False
         else if last line \<in> set [0xFF0C, 0x3001] then True
         else
           (let words = py_split_ws line
            in if words \<noteq> [] \<and> last words \<in> set zh_continuation_indicators then True
               else if length line < 8 then True
               else False))"

definition zh_add_missing_punctuation :: "ustr list \<Rightarrow> ustr list" where
  "zh_add_missing_punctuation ls =
     (if ls = [] then ls
      else
        (let last_line = strip (last ls)
         in if last_line \<noteq> [] \<and> last last_line \<notin> set zh_punctuation
               \<and> \<not> endswith last_line (ustr_of ''...'')
               \<and> \<not> startswith last_line [0x266A]
               \<and> \<not> endswith last_line [0xFF0C]
               \<and> \<not> zh_is_line_continuation last_line
            then butlast ls @ [last_line @ [0x3002]]
            else ls))"

definition zh_process_block :: "ProcessingConfig \<Rightarrow> SubtitleBlock \<Rightarrow> SubtitleBlock option" where
  "zh_process_block cfg b =
     (if lines b = [] then Some b
      else
        (let processed1 = process_dialogue_format (lines b);
             processed2 = (if length processed1 > 1 then zh_smart_merge_lines cfg processed1
                           else processed1)
         in case zh_apply_line_breaking cfg processed2 of
              None \<Rightarrow> None
            | Some processed3 \<Rightarrow>
                (let processed4 = (if \<not> no_punct_fix cfg then zh_add_missing_punctuation processed3
                                   else processed3)
                 in Some (b\<lparr>lines := processed4\<rparr>))))"

subsection \<open>Korean\<close>

definition ko_should_merge_with_current :: "ProcessingConfig \<Rightarrow> ustr \<Rightarrow> ustr \<Rightarrow> bool" where
  "ko_should_merge_with_current cfg current next_line =
     (if current = [] then False
      else if last current \<in> set ko_sentence_endings then False
      else
        (let current_is_dialogue = startswith current (ustr_of ''- '');
             next_is_dialogue = startswith next_line (ustr_of ''- '')
         in if current_is_dialogue \<noteq> next_is_dialogue then False
            else
              (let merged_length = length current + 1 + length next_line;
                   char_limit = get_character_limit cfg (config_language cfg)
               in merged_length \<le> char_limit)))"

fun ko_merge_loop :: "ProcessingConfig \<Rightarrow> ustr list \<Rightarrow> ustr \<Rightarrow> ustr list \<Rightarrow> ustr list \<times> ustr" where
  "ko_merge_loop cfg merged_lines current_line [] = (merged_lines, current_line)"
| "ko_merge_loop cfg merged_lines current_line (l # ls) =
     (let line = strip l
      in if line = [] then ko_merge_loop cfg merged_lines current_line ls
         else if ko_should_merge_with_current cfg current_line line then
           (if current_line \<noteq> [] then ko_merge_loop cfg merged_lines (current_line @ [0x20] @ line) ls
            else ko_merge_loop cfg merged_lines line ls)
         else
           (if current_line \<noteq> [] then ko_merge_loop cfg (merged_lines @ [current_line]) line ls
            else ko_merge_loop cfg merged_lines line ls))"

definition ko_smart_merge_lines :: "ProcessingConfig \<Rightarrow> ustr list \<Rightarrow> ustr list" where
  "ko_smart_merge_lines cfg ls =
     (if length ls \<le> 1 then ls
      else
        (case ko_merge_loop cfg [] [] ls of
           (merged_lines, current_line) \<Rightarrow>
             if current_line \<noteq> [] then merged_lines @ [current_line] else merged_lines))"

definition ko_apply_line_breaking :: "ProcessingConfig \<Rightarrow> ustr list \<Rightarrow> ustr list option" where
  "ko_apply_line_breaking cfg ls =
     map_option concat
       (those (map (ko_break_line_intelligently cfg) (filter (\<lambda>line. strip line \<noteq> []) ls)))"

definition ko_continuation_endings :: "ustr list" where
  "ko_continuation_endings =
     [[0xACE0], [0xC11C], [0xBA74], [0xBA70], [0xB294, 0xB370], [0xC9C0, 0xB9CC], [0xD558, 0xACE0],
      [0xAC00, 0xC9C0, 0xACE0], [0xB54C, 0xBB38, 0xC5D0], [0xD558, 0xBA74, 0xC11C],
      [0xB2E4, 0xAC00], [0xC73C, 0xBA74, 0xC11C], [0xC73C, 0xB2C8, 0xAE4C], [0xB2C8, 0xAE4C],
      [0xD558, 0xC5EC], [0xD574, 0xC11C], [0xC5D0, 0xC11C], [0xC73C, 0xB85C], [0xB85C], [0xC640],
      [0xACFC]]"

definition ko_is_line_continuation :: "ustr \<Rightarrow> bool" where
  "ko_is_line_continuation l =
     (let line = strip l
      in if line = [] then False
         else if list_ex (\<lambda>ending. endswith line ending) ko_continuation_endings then True
         else if length line < 6 then True
         else False)"

definition ko_add_missing_punctuation :: "ustr list \<Rightarrow> ustr list" where
  "ko_add_missing_punctuation ls =
     (if ls = [] then ls
      else
        (let last_line = strip (last ls)
         in if last_line \<noteq> [] \<and> last last_line \<notin> set ko_punctuation
               \<and> \<not> endswith last_line (ustr_of ''...'')
               \<and> \<not> startswith last_line [0x266A]
               \<and> \<not> list_ex (\<lambda>ending. endswith last_line ending)
                     [[0xACE0], [0xC11C], [0xBA74], [0xBA70], [0xB294, 0xB370], [0xC9C0, 0xB9CC],
                      [0xD558, 0xACE0]]
               \<and> \<not> ko_is_line_continuation last_line
            then butlast ls @ [last_line @ [0x2E]]
            else ls))"

definition ko_process_block :: "ProcessingConfig \<Rightarrow> SubtitleBlock \<Rightarrow> SubtitleBlock option" where
  "ko_process_block cfg b =
     (if lines b = [] then Some b
      else
        (let processed1 = process_dialogue_format (lines b);
             processed2 = (if length processed1 > 1 then ko_smart_merge_lines cfg processed1
                           else processed1)
         in case ko_apply_line_breaking cfg processed2 of
              None \<Rightarrow> None
            | Some processed3 \<Rightarrow>
                (let processed4 = (if \<not> no_punct_fix cfg then ko_add_missing_punctuation processed3
                                   else processed3)
                 in Some (b\<lparr>lines := processed4\<rparr>))))"

subsection \<open>English\<close>

definition en_connecting_words :: "ustr list" where
  "en_connecting_words = map ustr_of
     [''a'', ''an'', ''the'', ''of'', ''in'', ''on'', ''at'', ''to'', ''for'', ''with'', ''by'',
      ''and'', ''or'', ''but'']"

definition en_should_merge_with_current ::
    "(ustr \<Rightarrow> ustr) \<Rightarrow> ProcessingConfig \<Rightarrow> ustr \<Rightarrow> ustr \<Rightarrow> bool" where
  "en_should_merge_with_current lower cfg current next_line =
     (if current = [] then False
      else if last current \<in> set en_sentence_endings then False
      else
        (let current_is_dialogue = startswith current (ustr_of ''- '');
             next_is_dialogue = startswith next_line (ustr_of ''- '')
         in if current_is_dialogue \<and> next_is_dialogue then False
            else
              (let current_length = length (strip current);
                   next_length = length (strip next_line);
                   merged_length = length current + 1 + length next_line;
                   char_limit = get_character_limit cfg (config_language cfg)
               in if current_length < 25 \<or> next_length < 25 then merged_length \<le> char_limit
                  else if endswith (rstrip current) [0x2E] \<and> next_length < 20
                    then merged_length \<le> char_limit
                  else
                    (let current_words = py_split_ws (strip current)
                     in if current_words \<noteq> [] \<and> lower (last current_words) \<in> set en_connecting_words
                        then merged_length \<le> char_limit
                        else merged_length \<le> char_limit))))"

fun en_merge_loop ::
    "(ustr \<Rightarrow> ustr) \<Rightarrow> ProcessingConfig \<Rightarrow> ustr list \<Rightarrow> ustr \<Rightarrow> ustr list \<Rightarrow> ustr list \<times> ustr" where
  "en_merge_loop lower cfg merged_lines current_line [] = (merged_lines, current_line)"
| "en_merge_loop lower cfg merged_lines current_line (l # ls) =
     (let line = strip l
      in if line = [] then en_merge_loop lower cfg merged_lines current_line ls
         else if en_should_merge_with_current lower cfg current_line line then
           (if current_line \<noteq> [] then
              (if startswith current_line (ustr_of ''- '') \<and> startswith line (ustr_of ''- '') then
                 en_merge_loop lower cfg (merged_lines @ [current_line]) line ls
               else if startswith current_line (ustr_of ''- '') \<and> \<not> startswith line (ustr_of ''- '') then
                 en_merge_loop lower cfg merged_lines (current_line @ [0x20] @ line) ls
               else if \<not> startswith current_line (ustr_of ''- '') \<and> startswith line (ustr_of ''- '') then
                 en_merge_loop lower cfg (merged_lines @ [current_line]) line ls
               else en_merge_loop lower cfg merged_lines (current_line @ [0x20] @ line) ls)
            else en_merge_loop lower cfg merged_lines line ls)
         else
           (if current_line \<noteq> [] then en_merge_loop lower cfg (merged_lines @ [current_line]) line ls
            else en_merge_loop lower cfg merged_lines line ls))"

definition en_smart_merge_lines :: "(ustr \<Rightarrow> ustr) \<Rightarrow> ProcessingConfig \<Rightarrow> ustr list \<Rightarrow> ustr list" where
  "en_smart_merge_lines lower cfg ls =
     (if length ls \<le> 1 then ls
      else
        (case en_merge_loop lower cfg [] [] ls of
           (merged_lines, current_line) \<Rightarrow>
             if current_line \<noteq> [] then merged_lines @ [current_line] else merged_lines))"

definition en_apply_line_breaking ::
    "(ustr \<Rightarrow> ustr) \<Rightarrow> ProcessingConfig \<Rightarrow> ustr list \<Rightarrow> ustr list option" where
  "en_apply_line_breaking lower cfg ls =
     map_option concat
       (those (map (en_break_line_intelligently lower cfg) (filter (\<lambda>line. strip line \<noteq> []) ls)))"

text \<open>The merged line that \<open>_merge_short_lines\<close> tries for two neighbours, if it tries one.\<close>

definition en_short_merge :: "ustr \<Rightarrow> ustr \<Rightarrow> ustr option" where
  "en_short_merge current_line next_line =
     (let current_is_dialogue = startswith current_line (ustr_of ''- '');
          next_is_dialogue = startswith next_line (ustr_of ''- '');
          should_merge0 = (if length next_line < 20 then True
                           else if length current_line < 25 then True else False);
          should_merge = (if current_is_dialogue \<and> next_is_dialogue then False else should_merge0)
      in if should_merge then
           (if current_is_dialogue \<and> \<not> next_is_dialogue then
              Some (ustr_of ''- '' @ strip (drop 2 current_line) @ [0x20] @ next_line)
            else if \<not> current_is_dialogue \<and> next_is_dialogue then None
            else Some (current_line @ [0x20] @ next_line))
         else None)"

fun en_merge_short_loop :: "ProcessingConfig \<Rightarrow> ustr list \<Rightarrow> ustr list" where
  "en_merge_short_loop cfg [] = []"
| "en_merge_short_loop cfg [l] = [l]"
| "en_merge_short_loop cfg (l # n # rest) =
     (if strip l = [] then l # en_merge_short_loop cfg (n # rest)
      else if strip n \<noteq> [] then
        (case en_short_merge (strip l) (strip n) of
           None \<Rightarrow> l # en_merge_short_loop cfg (n # rest)
         | Some merged \<Rightarrow>
             if merged \<noteq> [] \<and> length merged \<le> get_character_limit cfg (config_language cfg)
             then merged # en_merge_short_loop cfg rest
             else l # en_merge_short_loop cfg (n # rest))
      else l # en_merge_short_loop cfg (n # rest))"

definition en_merge_short_lines :: "ProcessingConfig \<Rightarrow> ustr list \<Rightarrow> ustr list" where
  "en_merge_short_lines cfg ls = (if length ls \<le> 1 then ls else en_merge_short_loop cfg ls)"

definition en_process_block ::
    "(ustr \<Rightarrow> ustr) \<Rightarrow> ProcessingConfig \<Rightarrow> SubtitleBlock \<Rightarrow> SubtitleBlock option" where
  "en_process_block lower cfg b =
     (if lines b = [] then Some b
      else
        (let processed1 = process_dialogue_format (lines b);
             processed2 = (if length processed1 > 1 then en_smart_merge_lines lower cfg processed1
                           else processed1)
         in case en_apply_line_breaking lower cfg processed2 of
              None \<Rightarrow> None
            | Some processed3 \<Rightarrow> Some (b\<lparr>lines := en_merge_short_lines cfg processed3\<rparr>)))"

section \<open>The orchestrator (core/processor.py)\<close>

fun process_block ::
    "engine \<Rightarrow> (ustr \<Rightarrow> ustr) \<Rightarrow> ProcessingConfig \<Rightarrow> SubtitleBlock \<Rightarrow> SubtitleBlock option" where
  "process_block ChineseProcessor lower cfg b = zh_process_block cfg b"
| "process_block EnglishProcessor lower cfg b = en_process_block lower cfg b"
| "process_block KoreanProcessor lower cfg b = ko_process_block cfg b"

text \<open>The loop of \<open>_is_bilingual_block\<close>, with the languages seen so far.\<close>

fun bilingual_loop :: "Language list \<Rightarrow> ustr list \<Rightarrow> bool" where
  "bilingual_loop languages [] = False"
| "bilingual_loop languages (line # rest) =
     (if strip line \<noteq> [] then
        (let languages' = List.insert (detect_line_language line) languages
         in if length languages' > 1 then True else bilingual_loop languages' rest)
      else bilingual_loop languages rest)"

definition is_bilingual_block :: "SubtitleBlock \<Rightarrow> bool" where
  "is_bilingual_block b = (if length (lines b) < 2 then False else bilingual_loop [] (lines b))"

text \<open>The inner loop of \<open>_process_bilingual_block\<close>: the following lines of the same language
  (blank lines are passed over), and the lines from index \<open>j\<close> on.\<close>

fun consecutive_lines_of :: "Language \<Rightarrow> ustr list \<Rightarrow> ustr list \<times> ustr list" where
  "consecutive_lines_of line_language [] = ([], [])"
| "consecutive_lines_of line_language (next_line # rest) =
     (if strip next_line = [] then consecutive_lines_of line_language rest
      else if detect_line_language next_line = line_language then
        (case consecutive_lines_of line_language rest of
           (same, remaining) \<Rightarrow> (next_line # same, remaining))
      else ([], next_line # rest))"

text \<open>
  The outer loop, on the lines from index \<open>i\<close> on.  A run of lines is processed by the engine
  of its language under \<open>replace(self.config, language=line_language)\<close>, a new configuration
  value; the configuration \<open>cfg\<close> is only read.
\<close>

function bilingual_lines ::
    "(ustr \<Rightarrow> ustr) \<Rightarrow> ProcessingConfig \<Rightarrow> SubtitleBlock \<Rightarrow> ustr list \<Rightarrow> ustr list option" where
  "bilingual_lines lower cfg b [] = Some []"
| "bilingual_lines lower cfg b (line # rest) =
     (if strip line = [] then map_option ((#) line) (bilingual_lines lower cfg b rest)
      else
        (let line_language = detect_line_language line;
             found = consecutive_lines_of line_language rest;
             consecutive_lines = line # fst found;
             processed_group =
               (case processors line_language of
                  Some processor \<Rightarrow>
                    (let temp_block = \<lparr> index = index b, time_code = time_code b,
                                         lines = consecutive_lines, language = Some line_language,
                                         is_sdh = is_sdh b \<rparr>;
                         temp_config = cfg\<lparr>config_language := line_language\<rparr>
                     in map_option lines (process_block processor lower temp_config temp_block))
                | None \<Rightarrow> Some consecutive_lines)
         in case processed_group of
              None \<Rightarrow> None
            | Some processed_lines \<Rightarrow> map_option ((@) processed_lines) (bilingual_lines lower cfg b (snd found))))"
  by pat_completeness auto
termination
proof (relation "measure (\<lambda>(lower, cfg, b, ls). length ls)")
  show "wf (measure (\<lambda>(lower, cfg, b, ls). length ls))" by simp
next
  fix lower :: "ustr \<Rightarrow> ustr" and cfg :: ProcessingConfig and b :: SubtitleBlock
    and line :: ustr and rest :: "ustr list"
  show "((lower, cfg, b, rest), (lower, cfg, b, line # rest))
      \<in> measure (\<lambda>(lower, cfg, b, ls). length ls)" by simp
next
  fix lower :: "ustr \<Rightarrow> ustr" and cfg :: ProcessingConfig and b :: SubtitleBlock
    and line :: ustr and rest :: "ustr list" and x xa
  assume "xa = consecutive_lines_of x rest"
  have "length (snd (consecutive_lines_of l xs)) \<le> length xs" for l xs
    by (induction xs) (auto split: prod.splits)
  then have "length (snd (consecutive_lines_of x rest)) < length (line # rest)"
    by (simp add: le_imp_less_Suc)
  then show "((lower, cfg, b, snd xa), (lower, cfg, b, line # rest))
      \<in> measure (\<lambda>(lower, cfg, b, ls). length ls)"
    using \<open>xa = consecutive_lines_of x rest\<close> by simp
qed

definition process_bilingual_block ::
    "(ustr \<Rightarrow> ustr) \<Rightarrow> ProcessingConfig \<Rightarrow> SubtitleBlock \<Rightarrow> SubtitleBlock option" where
  "process_bilingual_block lower cfg b =
     map_option (\<lambda>processed_lines. b\<lparr>lines := processed_lines\<rparr>) (bilingual_lines lower cfg b (lines b))"

definition process_one_block ::
    "(ustr \<Rightarrow> ustr) \<Rightarrow> ProcessingConfig \<Rightarrow> SRTDocument \<Rightarrow> SubtitleBlock \<Rightarrow> SubtitleBlock option" where
  "process_one_block lower cfg doc b =
     (if is_bilingual_block b then process_bilingual_block lower cfg b
      else
        (case processors (resolve_block_language doc b) of
           Some processor \<Rightarrow> process_block processor lower cfg b
         | None \<Rightarrow> Some b))"

definition process_document ::
    "(ustr \<Rightarrow> ustr) \<Rightarrow> ProcessingConfig \<Rightarrow> SRTDocument \<Rightarrow> SRTDocument option" where
  "process_document lower cfg doc =
     map_option (\<lambda>processed_blocks. doc\<lparr>blocks := processed_blocks\<rparr>)
       (those (map (process_one_block lower cfg doc) (blocks doc)))"

text \<open>
  \<open>parse_file\<close> on a file that exists: \<open>content\<close> is its decoded text and \<open>detected\<close> the
  encoding the detector names, used when no encoding is forced.
\<close>

definition parse_file ::
    "ucd \<Rightarrow> ustr \<Rightarrow> ustr option \<Rightarrow> ustr \<Rightarrow> ustr \<Rightarrow> (parse_error \<times> nat) + SRTDocument" where
  "parse_file U file_path enc detected content =
     (let used = (case enc of None \<Rightarrow> detected | Some e \<Rightarrow> e)
      in case parse_content_blocks U content of
           Inl e \<Rightarrow> Inl e
         | Inr bs \<Rightarrow> Inr \<lparr> blocks = bs, source_file = Some file_path, detected_language = None,
                          encoding = used \<rparr>)"

text \<open>
  \<open>process_file\<close>.  The processor object holds the configuration object the caller passed
  in, so the state is that configuration: the function takes it and returns it as it is
  after the call, next to the result, which is the error raised or the processed document
  with the text written to the output file.  The outer \<open>None\<close> stands for a run that does
  not return.
\<close>

definition process_file ::
    "ucd \<Rightarrow> (ustr \<Rightarrow> ustr) \<Rightarrow> ustr \<Rightarrow> ustr \<Rightarrow> ustr \<Rightarrow> ProcessingConfig
      \<Rightarrow> (((parse_error \<times> nat) + SRTDocument \<times> ustr) \<times> ProcessingConfig) option" where
  "process_file U lower input_path detected content config =
     (case parse_file U input_path (force_encoding config) detected content of
        Inl e \<Rightarrow> Some (Inl e, config)
      | Inr document \<Rightarrow>
          (let detected_language = detect_language document;
               document1 = (if config_language config = AUTO
                            then document\<lparr>detected_language := Some detected_language\<rparr>
                            else document\<lparr>detected_language := Some (config_language config)\<rparr>);
               config1 = (if config_language config = AUTO
                          then config\<lparr>config_language := detected_language\<rparr>
                          else config);
               document2 = detect_block_languages document1;
               document3 = (if remove_sdh config1 then remove_sdh_blocks_and_clean_content document2
                            else document2)
           in case process_document lower config1 document3 of
                None \<Rightarrow> None
              | Some processed_document \<Rightarrow>
                  Some (Inr (processed_document, to_srt_format processed_document), config1)))"


section \<open>Example values\<close>

text \<open>The defaults of the \<open>ProcessingConfig\<close> dataclass.\<close>

definition default_config :: ProcessingConfig where
  "default_config =
     \<lparr> config_language = AUTO, content_type = ADULT, sdh_mode = False, force_encoding = None,
       no_speed_check = False, no_punct_fix = False, batch_mode = False, batch_directory = None,
       check_only = False, output_violation = None, remove_sdh = True \<rparr>"

text \<open>A document as \<open>SRTDocument(blocks=bs, detected_language=l)\<close> builds it.\<close>

definition document_of :: "SubtitleBlock list \<Rightarrow> Language option \<Rightarrow> SRTDocument" where
  "document_of bs l = \<lparr> blocks = bs, source_file = None, detected_language = l,
      encoding = ustr_of ''utf-8'' \<rparr>"

text \<open>A block of fourteen hiragana letters shown for two seconds.\<close>

definition ja_block :: SubtitleBlock where
  "ja_block = \<lparr> index = 1, time_code = \<lparr> tc_start = 0, tc_end = 2000000 \<rparr>,
      lines = [replicate 14 0x3042], language = Some JAPANESE, is_sdh = False \<rparr>"

text \<open>A block whose second line is forty-three spaces.\<close>

definition blank_block :: SubtitleBlock where
  "blank_block = \<lparr> index = 1, time_code = \<lparr> tc_start = 0, tc_end = 5000000 \<rparr>,
      lines = [ustr_of ''Hi'', replicate 43 0x20], language = Some ENGLISH, is_sdh = False \<rparr>"

text \<open>Forty characters shown for two seconds.\<close>

definition boundary_block :: SubtitleBlock where
  "boundary_block = \<lparr> index = 1, time_code = \<lparr> tc_start = 0, tc_end = 2000000 \<rparr>,
      lines = [replicate 40 0x61], language = Some ENGLISH, is_sdh = False \<rparr>"

text \<open>Thirty characters shown for two seconds: a Chinese block of two lines and an English
  block of one line.\<close>

definition zh_speed_block :: SubtitleBlock where
  "zh_speed_block = \<lparr> index = 1, time_code = \<lparr> tc_start = 0, tc_end = 2000000 \<rparr>,
      lines = [replicate 15 0x4E2D, replicate 15 0x4E2D], language = Some CHINESE,
      is_sdh = False \<rparr>"

definition en_speed_block :: SubtitleBlock where
  "en_speed_block = \<lparr> index = 1, time_code = \<lparr> tc_start = 0, tc_end = 2000000 \<rparr>,
      lines = [replicate 30 0x61], language = Some ENGLISH, is_sdh = False \<rparr>"

text \<open>A Chinese line of twenty-five characters, and lines for the other two engines.\<close>

definition zh_long :: ustr where
  "zh_long = [0x6211, 0x4EEC, 0x4ECA, 0x5929, 0x8981, 0x53BB, 0x770B, 0x7684, 0x5F88, 0x6709,
     0x610F, 0x601D, 0x7684, 0x7535, 0x5F71, 0x8FD8, 0x8981, 0x53BB, 0x5403, 0x5F88, 0x597D,
     0x5403, 0x7684, 0x4E1C, 0x897F]"

definition en_long :: ustr where
  "en_long = ustr_of
     ''I really think that we should go to the store, and then we can go home and eat dinner together tonight.''"

definition ko_long :: ustr where
  "ko_long = replicate 10 0xD55C @ [0x20] @ replicate 12 0xAE00"

text \<open>Three blocks; the second holds only the music glyphs.\<close>

definition block_of :: "int \<Rightarrow> int \<Rightarrow> int \<Rightarrow> ustr list \<Rightarrow> SubtitleBlock" where
  "block_of i s e ls = \<lparr> index = i, time_code = \<lparr> tc_start = s, tc_end = e \<rparr>, lines = ls,
      language = None, is_sdh = False \<rparr>"

definition music_document :: SRTDocument where
  "music_document = document_of
     [block_of 1 1000000 2000000 [ustr_of ''Hello''],
      block_of 2 3000000 4000000 [[0x266A, 0x266A]],
      block_of 3 5000000 6000000 [ustr_of ''[Door opens] World'']] None"

text \<open>A time-code line with minutes and seconds above 59 and extra digits at its end.\<close>

definition odd_time_line :: ustr where
  "odd_time_line = ustr_of ''00:61:75,000 --> 00:00:01,0001234''"

definition plain_time_line :: ustr where
  "plain_time_line = ustr_of ''00:01:13,933 --> 00:01:18,233''"

text \<open>One block whose text holds a blank line.\<close>

definition blank_line_lines :: "ustr list" where
  "blank_line_lines =
     [ustr_of ''1'', ustr_of ''00:00:01,000 --> 00:00:02,000'', ustr_of ''Hello'', [],
      ustr_of ''World'']"

definition blank_line_content :: ustr where
  "blank_line_content = py_join [0x0A] blank_line_lines"

text \<open>Two files of one block each, the first Chinese and the second English, in two lines.\<close>

definition zh_file :: ustr where
  "zh_file = py_join [0x0A]
     [ustr_of ''1'', ustr_of ''00:00:01,000 --> 00:00:03,000'',
      [0x4F60, 0x597D, 0x4E16, 0x754C, 0x3002]]"

definition en_file :: ustr where
  "en_file = py_join [0x0A]
     [ustr_of ''1'', ustr_of ''00:00:01,000 --> 00:00:03,000'', ustr_of ''I think that we'', ustr_of ''should go home now.'']"

text \<open>What a call of \<open>process_file\<close> wrote to the output file, if it wrote one.\<close>

definition written_text ::
    "(((parse_error \<times> nat) + SRTDocument \<times> ustr) \<times> ProcessingConfig) option \<Rightarrow> ustr option" where
  "written_text r = (case r of Some (Inr (d, t), c) \<Rightarrow> Some t | _ \<Rightarrow> None)"


section \<open>Language detection: results\<close>

lemma detect_line_language_blank: "strip line = [] \<Longrightarrow> detect_line_language line = ENGLISH"
  by (simp add: detect_line_language_def)

lemma detect_block_language_blank: "strip (text_of b) = [] \<Longrightarrow> detect_block_language b = ENGLISH"
  by (simp add: detect_block_language_def)

lemma detect_language_no_blocks: "blocks doc = [] \<Longrightarrow> detect_language doc = ENGLISH"
  by (simp add: detect_language_def)

text \<open>
  Claim C5.  Empty or whitespace-only input is classified English at the line and the block
  granularity (lemmas above), and an empty document is English.  A document that has blocks
  whose text is only whitespace is not: all four scores are zero and the first candidate,
  Chinese, wins.  The theorem evaluates \<open>detect_language\<close> on a one-block document whose only
  line is a single space.
\<close>

theorem detect_language_whitespace_document:
  "detect_language
     \<lparr> blocks = [\<lparr> index = 1, time_code = \<lparr> tc_start = 0, tc_end = 1000000 \<rparr>,
                   lines = [[0x20]], language = None, is_sdh = False \<rparr>],
       source_file = None, detected_language = None, encoding = ustr_of ''utf-8'' \<rparr> = CHINESE"
  by code_simp

section \<open>Compliance validator: results\<close>

lemma char_limit_warnings_block:
  "w \<in> set (char_limit_warnings cfg idx n ls) \<Longrightarrow> warning_block w = idx"
  by (induction ls arbitrary: n) (auto simp: Let_def split: if_splits)

lemma char_limit_warnings_not_speed:
  "w \<in> set (char_limit_warnings cfg idx n ls) \<Longrightarrow> \<not> is_speed_warning w"
  by (induction ls arbitrary: n) (auto simp: Let_def split: if_splits)

lemma char_limit_warnings_none:
  "char_limit_warnings cfg idx n ls = [] \<Longrightarrow> line \<in> set ls \<Longrightarrow> strip line \<noteq> [] \<Longrightarrow>
   length line \<le> get_character_limit cfg (detect_line_language line)"
  by (induction ls arbitrary: n) (auto simp: Let_def split: if_splits)

lemma validate_block_index: "w \<in> set (validate_block cfg doc b) \<Longrightarrow> warning_block w = index b"
  by (auto simp: validate_block_def speed_warnings_def Let_def char_limit_warnings_block
      split: option.splits if_splits)

lemma validate_document_warnings:
  "warnings (validate_document cfg doc) = concat (map (validate_block cfg doc) (blocks doc))"
  by (simp add: validate_document_def Let_def)

text \<open>
  Claim C1, as stated, fails twice.  The validator looks a block up in the engine table first
  and checks nothing when its language has no engine, so a Japanese block of one line of
  fourteen hiragana letters (limit 13) gets no warning and is counted compliant.  And a line
  of forty-three spaces is not empty, is classified English (limit 42), and is skipped
  because it is blank once stripped.
\<close>

theorem compliant_block_over_limit_counterexample:
  "(ja_block \<in> set (blocks (document_of [ja_block] (Some JAPANESE)))
    \<and> warnings (validate_document (default_config\<lparr>config_language := JAPANESE\<rparr>)
         (document_of [ja_block] (Some JAPANESE))) = []
    \<and> compliant_blocks (validate_document (default_config\<lparr>config_language := JAPANESE\<rparr>)
         (document_of [ja_block] (Some JAPANESE))) = 1
    \<and> replicate 14 0x3042 \<in> set (lines ja_block)
    \<and> replicate 14 0x3042 \<noteq> []
    \<and> detect_line_language (replicate 14 0x3042) = JAPANESE
    \<and> \<not> length (replicate 14 (0x3042::int)) \<le>
         get_character_limit (default_config\<lparr>config_language := JAPANESE\<rparr>)
           (detect_line_language (replicate 14 0x3042)))
   \<and> (blank_block \<in> set (blocks (document_of [blank_block] (Some ENGLISH)))
    \<and> warnings (validate_document (default_config\<lparr>config_language := ENGLISH\<rparr>)
         (document_of [blank_block] (Some ENGLISH))) = []
    \<and> replicate 43 0x20 \<in> set (lines blank_block)
    \<and> replicate 43 0x20 \<noteq> []
    \<and> \<not> length (replicate 43 (0x20::int)) \<le>
         get_character_limit (default_config\<lparr>config_language := ENGLISH\<rparr>)
           (detect_line_language (replicate 43 0x20)))"
  by code_simp

text \<open>
  Claim C1, amended.  For every document and every block of it whose language has an engine
  (Chinese, English or Korean): if no warning of the validation report carries the block's
  index, then every line of the block that is not blank once stripped is no longer than the
  character limit of the language detected for that line.
\<close>

theorem validator_compliant_block_lines:
  assumes "b \<in> set (blocks doc)"
    and "processors (resolve_block_language doc b) \<noteq> None"
    and "\<forall>w \<in> set (warnings (validate_document cfg doc)). warning_block w \<noteq> index b"
    and "line \<in> set (lines b)"
    and "strip line \<noteq> []"
  shows "length line \<le> get_character_limit cfg (detect_line_language line)"
proof -
  have "set (validate_block cfg doc b) \<subseteq> set (warnings (validate_document cfg doc))"
    using assms(1) by (auto simp: validate_document_def Let_def)
  with assms(3) have "\<forall>w \<in> set (validate_block cfg doc b). warning_block w \<noteq> index b"
    by blast
  then have "validate_block cfg doc b = []"
    using validate_block_index[of _ cfg doc b] by (cases "validate_block cfg doc b") auto
  with assms(2) have "char_limit_warnings cfg (index b) 0 (lines b) = []"
    by (auto simp: validate_block_def Let_def)
  then show ?thesis
    using assms(4,5) by (rule char_limit_warnings_none)
qed

theorem validator_compliant_block_lines_witness:
  "boundary_block \<in> set (blocks (document_of [boundary_block] (Some ENGLISH)))
   \<and> processors (resolve_block_language (document_of [boundary_block] (Some ENGLISH))
        boundary_block) \<noteq> None
   \<and> warnings (validate_document (default_config\<lparr>config_language := ENGLISH\<rparr>)
        (document_of [boundary_block] (Some ENGLISH))) = []
   \<and> replicate 40 0x61 \<in> set (lines boundary_block)
   \<and> strip (replicate 40 0x61) \<noteq> []
   \<and> length (replicate 40 (0x61::int)) \<le>
        get_character_limit (default_config\<lparr>config_language := ENGLISH\<rparr>)
          (detect_line_language (replicate 40 0x61))"
proof -
  have h1: "boundary_block \<in> set (blocks (document_of [boundary_block] (Some ENGLISH)))"
    by (simp add: document_of_def)
  have h2: "processors (resolve_block_language (document_of [boundary_block] (Some ENGLISH))
        boundary_block) \<noteq> None"
    by code_simp
  have h3': "warnings (validate_document (default_config\<lparr>config_language := ENGLISH\<rparr>)
        (document_of [boundary_block] (Some ENGLISH))) = []"
    by code_simp
  then have h3: "\<forall>w \<in> set (warnings (validate_document (default_config\<lparr>config_language := ENGLISH\<rparr>)
            (document_of [boundary_block] (Some ENGLISH)))). warning_block w \<noteq> index boundary_block"
    by simp
  have h4: "replicate 40 0x61 \<in> set (lines boundary_block)"
    by (simp add: boundary_block_def)
  have h5: "strip (replicate 40 0x61) \<noteq> []"
    by code_simp
  from validator_compliant_block_lines[OF h1 h2 h3 h4 h5] h1 h2 h3' h4 h5
  show ?thesis by blast
qed

text \<open>
  What the validator does about reading speed.  A block gets a reading-speed warning if and
  only if speed checking is enabled, the block's language has an engine, and the block's
  reading speed exceeds the limit of the language of the configuration; the limit shown in
  the warning is that of the language of the block.
\<close>

lemma validate_block_speed_warning_iff:
  "(\<exists>w \<in> set (validate_block cfg doc b). is_speed_warning w) \<longleftrightarrow>
      (\<not> no_speed_check cfg \<and> processors (resolve_block_language doc b) \<noteq> None \<and>
       get_reading_speed b > get_reading_speed_limit cfg (config_language cfg))"
proof (cases "processors (resolve_block_language doc b)")
  case None
  then show ?thesis by (simp add: validate_block_def)
next
  case (Some p)
  then show ?thesis
    by (cases p) (auto simp: validate_block_def speed_warnings_def Let_def
        dest: char_limit_warnings_not_speed)
qed

text \<open>A block of 40 characters lasting 2.0 seconds has reading speed exactly 20.0 and is not
  flagged against the English adult limit of 20.0.\<close>

lemma reading_speed_boundary_not_flagged:
  "get_reading_speed boundary_block = 20
   \<and> get_reading_speed_limit (default_config\<lparr>config_language := ENGLISH\<rparr>) ENGLISH = 20
   \<and> validate_block (default_config\<lparr>config_language := ENGLISH\<rparr>)
        (document_of [boundary_block] (Some ENGLISH)) boundary_block = []"
  by code_simp

text \<open>
  Claim C6.  The validator does not record a reading-speed violation exactly when the block's
  reading speed exceeds the limit of its language and content type: \<open>validate_reading_speed\<close>
  compares the speed with the limit of the language of the configuration, while the
  warning is written with the limit of the language of the block.  With English
  configured, a Chinese block of 30 characters shown for 2.0 seconds is read at 15
  characters per second, above the Chinese adult limit of 9, and gets no warning.  With
  Chinese configured, an English block of 30 characters shown for 2.0 seconds, at 15
  characters per second and below the English adult limit of 20, gets a warning, which
  shows the speed 15 and the limit 20.
\<close>

theorem reading_speed_checked_against_configured_language:
  "\<not> no_speed_check (default_config\<lparr>config_language := ENGLISH\<rparr>)
   \<and> resolve_block_language (document_of [zh_speed_block] (Some ENGLISH)) zh_speed_block = CHINESE
   \<and> get_reading_speed zh_speed_block = 15
   \<and> get_reading_speed_limit (default_config\<lparr>config_language := ENGLISH\<rparr>) CHINESE = 9
   \<and> warnings (validate_document (default_config\<lparr>config_language := ENGLISH\<rparr>)
        (document_of [zh_speed_block] (Some ENGLISH))) = []
   \<and> \<not> no_speed_check (default_config\<lparr>config_language := CHINESE\<rparr>)
   \<and> resolve_block_language (document_of [en_speed_block] (Some CHINESE)) en_speed_block = ENGLISH
   \<and> get_reading_speed en_speed_block = 15
   \<and> get_reading_speed_limit (default_config\<lparr>config_language := CHINESE\<rparr>) ENGLISH = 20
   \<and> warnings (validate_document (default_config\<lparr>config_language := CHINESE\<rparr>)
        (document_of [en_speed_block] (Some CHINESE))) = [ReadingSpeedWarning 1 15 20]"
  by code_simp

section \<open>Line engines: results\<close>

lemma zh_merge_loop_concat:
  "zh_merge_loop cfg merged current ls = (m', c') \<Longrightarrow>
   concat m' @ c' = concat merged @ current @ concat (filter (\<lambda>l. l \<noteq> []) (map strip ls))"
  by (induction ls arbitrary: merged current) (auto simp: Let_def split: if_splits)

text \<open>
  Claim C10, as stated, fails on a list of one line: \<open>_smart_merge_lines\<close> returns a list of
  at most one line as it is, without stripping it.  On the single line \<open>" a"\<close> the output
  concatenates to \<open>" a"\<close>, the stripped non-empty input lines to \<open>"a"\<close>.
\<close>

theorem zh_smart_merge_single_line_counterexample:
  "concat (zh_smart_merge_lines default_config [ustr_of '' a'']) = ustr_of '' a''
   \<and> concat (filter (\<lambda>l. l \<noteq> []) (map strip [ustr_of '' a''])) = ustr_of ''a''
   \<and> ustr_of '' a'' \<noteq> ustr_of ''a''"
  by code_simp

text \<open>
  Claim C10, amended.  For every list of at least two input lines, the concatenation of the
  output lines of the Chinese \<open>_smart_merge_lines\<close> equals the concatenation of the stripped
  non-empty input lines; a list of at most one line is returned unchanged, so its
  concatenation is that of the input.
\<close>

theorem zh_smart_merge_lines_concat:
  "concat (zh_smart_merge_lines cfg ls) =
     (if length ls \<le> 1 then concat ls
      else concat (filter (\<lambda>l. l \<noteq> []) (map strip ls)))"
proof (cases "length ls \<le> 1")
  case True
  then show ?thesis by (simp add: zh_smart_merge_lines_def)
next
  case False
  obtain m c where mc: "zh_merge_loop cfg [] [] ls = (m, c)"
    by (cases "zh_merge_loop cfg [] [] ls")
  from zh_merge_loop_concat[OF mc]
  have "concat m @ c = concat (filter (\<lambda>l. l \<noteq> []) (map strip ls))"
    by simp
  with False mc show ?thesis
    by (auto simp: zh_smart_merge_lines_def)
qed

theorem zh_smart_merge_lines_concat_witness:
  "concat (zh_smart_merge_lines (default_config\<lparr>config_language := CHINESE\<rparr>)
      [[0x4F60, 0x597D, 0x20], [], [0x20, 0x4E16, 0x754C]]) = [0x4F60, 0x597D, 0x4E16, 0x754C]
   \<and> zh_smart_merge_lines (default_config\<lparr>config_language := CHINESE\<rparr>)
      [[0x4F60, 0x597D, 0x20], [], [0x20, 0x4E16, 0x754C]] = [[0x4F60, 0x597D, 0x4E16, 0x754C]]"
proof -
  have a: "concat (filter (\<lambda>l. l \<noteq> []) (map strip [[0x4F60, 0x597D, 0x20], [], [0x20, 0x4E16, 0x754C]]))
      = [0x4F60, 0x597D, 0x4E16, 0x754C]"
    by code_simp
  have b: "zh_smart_merge_lines (default_config\<lparr>config_language := CHINESE\<rparr>)
      [[0x4F60, 0x597D, 0x20], [], [0x20, 0x4E16, 0x754C]] = [[0x4F60, 0x597D, 0x4E16, 0x754C]]"
    by code_simp
  from zh_smart_merge_lines_concat[of "default_config\<lparr>config_language := CHINESE\<rparr>"
      "[[0x4F60, 0x597D, 0x20], [], [0x20, 0x4E16, 0x754C]]"] a b
  show ?thesis by simp
qed

lemma zh_break_line_intelligently_returns:
  "\<exists>ys. zh_break_line_intelligently cfg line = Some ys"
proof (induction line rule: length_induct)
  case (1 line)
  show ?case
    apply (subst zh_break_line_intelligently.simps)
    using 1 apply (auto simp: Let_def)
    done
qed

lemma en_break_line_intelligently_returns:
  "\<exists>ys. en_break_line_intelligently lower cfg line = Some ys"
proof (induction line rule: length_induct)
  case (1 line)
  show ?case
    apply (subst en_break_line_intelligently.simps)
    using 1 apply (auto simp: Let_def)
    done
qed

lemma ko_break_line_intelligently_returns:
  "\<exists>ys. ko_break_line_intelligently cfg line = Some ys"
proof (induction line rule: length_induct)
  case (1 line)
  show ?case
    apply (subst ko_break_line_intelligently.simps)
    using 1 apply (auto simp: Let_def)
    done
qed

text \<open>
  Claim C7.  For every configuration and every input line, \<open>_break_line_intelligently\<close> of
  the Chinese, the English and the Korean engine returns a list of lines.  The three
  functions are defined as partial functions, where a run that never returns has no result;
  each makes its recursive call only under the test that the remainder is strictly shorter
  than the line, and the proofs are by induction on the length of the line.  The English
  engine returns for every lower-casing function.
\<close>

theorem break_line_intelligently_terminates:
  "(\<exists>ys. zh_break_line_intelligently cfg line = Some ys)
   \<and> (\<exists>ys. en_break_line_intelligently lower cfg line = Some ys)
   \<and> (\<exists>ys. ko_break_line_intelligently cfg line = Some ys)"
  using zh_break_line_intelligently_returns en_break_line_intelligently_returns
    ko_break_line_intelligently_returns by blast

theorem break_line_intelligently_terminates_witness:
  "zh_break_line_intelligently (default_config\<lparr>config_language := CHINESE\<rparr>) zh_long
     = Some [take 13 zh_long, drop 13 zh_long]
   \<and> en_break_line_intelligently ascii_lower (default_config\<lparr>config_language := ENGLISH\<rparr>) en_long
     = Some [take 32 en_long, drop 33 en_long]
   \<and> ko_break_line_intelligently (default_config\<lparr>config_language := KOREAN\<rparr>) ko_long
     = Some [take 10 ko_long, drop 11 ko_long]"
proof -
  have a: "zh_break_line_intelligently (default_config\<lparr>config_language := CHINESE\<rparr>) zh_long
     \<in> {None, Some [take 13 zh_long, drop 13 zh_long]}"
    by code_simp
  have b: "en_break_line_intelligently ascii_lower (default_config\<lparr>config_language := ENGLISH\<rparr>)
     en_long \<in> {None, Some [take 32 en_long, drop 33 en_long]}"
    by code_simp
  have c: "ko_break_line_intelligently (default_config\<lparr>config_language := KOREAN\<rparr>) ko_long
     \<in> {None, Some [take 10 ko_long, drop 11 ko_long]}"
    by code_simp
  from break_line_intelligently_terminates[of "default_config\<lparr>config_language := CHINESE\<rparr>"
      zh_long ascii_lower]
    break_line_intelligently_terminates[of "default_config\<lparr>config_language := ENGLISH\<rparr>"
      en_long ascii_lower]
    break_line_intelligently_terminates[of "default_config\<lparr>config_language := KOREAN\<rparr>"
      ko_long ascii_lower] a b c
  show ?thesis by auto
qed

section \<open>SDH removal: results\<close>

lemma dropWhile_all_iff:
  "(\<forall>c \<in> set (dropWhile P s). P c) \<longleftrightarrow> (\<forall>c \<in> set s. P c)"
proof
  assume a: "\<forall>c \<in> set (dropWhile P s). P c"
  have "dropWhile P s = []"
  proof (rule ccontr)
    assume n: "dropWhile P s \<noteq> []"
    then have "\<not> P (hd (dropWhile P s))" by (rule hd_dropWhile)
    moreover from n have "hd (dropWhile P s) \<in> set (dropWhile P s)" by simp
    ultimately show False using a by blast
  qed
  then show "\<forall>c \<in> set s. P c" by (simp add: dropWhile_eq_Nil_conv)
next
  assume "\<forall>c \<in> set s. P c"
  then show "\<forall>c \<in> set (dropWhile P s). P c" by (auto dest: set_dropWhileD)
qed

lemma strip_eq_Nil_iff: "strip s = [] \<longleftrightarrow> (\<forall>c \<in> set s. py_isspace c)"
proof -
  have "strip s = [] \<longleftrightarrow> (\<forall>c \<in> set (dropWhile py_isspace s). py_isspace c)"
    by (simp add: strip_def rstrip_def lstrip_def dropWhile_eq_Nil_conv)
  then show ?thesis by (simp only: dropWhile_all_iff)
qed

lemma strip_no_space: "\<forall>c \<in> set s. \<not> py_isspace c \<Longrightarrow> strip s = s"
proof -
  assume a: "\<forall>c \<in> set s. \<not> py_isspace c"
  have d: "dropWhile py_isspace t = t" if "\<forall>c \<in> set t. \<not> py_isspace c" for t
    using that by (cases t) auto
  from a have "dropWhile py_isspace s = s" by (rule d)
  moreover from a have "dropWhile py_isspace (rev s) = rev s" by (intro d) simp
  ultimately show ?thesis by (simp add: strip_def rstrip_def lstrip_def)
qed

lemma set_py_join_first: "ls \<noteq> [] \<Longrightarrow> set (hd ls) \<subseteq> set (py_join sep ls)"
  by (induction sep ls rule: py_join.induct) auto

lemma music_glyph_not_space: "\<not> py_isspace 0x266A"
  by (simp add: py_isspace_def in_range_def)

lemma music_line_is_pure_sdh:
  assumes "set l \<subseteq> {0x266A}"
  shows "line_is_pure_sdh l"
proof -
  from assms have "\<forall>c \<in> set l. \<not> py_isspace c"
    using music_glyph_not_space by auto
  then have s: "strip l = l" by (rule strip_no_space)
  from assms have f: "filter (\<lambda>c. c \<notin> set music_glyphs) l = []"
    by (auto simp: music_glyphs_def filter_empty_conv)
  show ?thesis
    by (simp add: line_is_pure_sdh_def s f Let_def sub_leading_dash_def strip_eq_Nil_iff)
qed

lemma music_only_is_sdh_only:
  assumes "lines b \<noteq> []" and "\<forall>l \<in> set (lines b). l \<noteq> [] \<and> set l \<subseteq> {0x266A}"
  shows "is_sdh_only_block b"
proof -
  from assms have h: "hd (lines b) \<noteq> []" "set (hd (lines b)) \<subseteq> {0x266A}"
    by (cases "lines b"; simp)+
  then have "0x266A \<in> set (hd (lines b))"
    by (cases "hd (lines b)") auto
  with set_py_join_first[OF assms(1), of "[0x0A]"] have "0x266A \<in> set (text_of b)"
    by (auto simp: text_of_def)
  with music_glyph_not_space have t: "strip (text_of b) \<noteq> []"
    by (auto simp: strip_eq_Nil_iff)
  from assms(2) have p: "list_all line_is_pure_sdh (lines b)"
    by (simp add: list_all_iff music_line_is_pure_sdh)
  from assms(1) t p show ?thesis
    by (simp add: is_sdh_only_block_def Let_def)
qed

lemma resort_indices_index:
  "map index (resort_indices i bs) = map (\<lambda>k. i + 1 + int k) [0 ..< length bs]"
proof (induction bs arbitrary: i)
  case Nil
  then show ?case by simp
next
  case (Cons b bs)
  have "map (\<lambda>k. i + 1 + int k) [0 ..< length (b # bs)]
      = (i + 1) # map (\<lambda>k. i + 1 + int k) (map Suc [0 ..< length bs])"
    by (simp add: upt_conv_Cons map_Suc_upt del: upt_Suc)
  also have "\<dots> = (i + 1) # map (\<lambda>k. (i + 1) + 1 + int k) [0 ..< length bs]"
    by (simp add: comp_def add.assoc add.commute)
  finally show ?case using Cons.IH[of "i + 1"] by simp
qed

lemma length_resort_indices: "length (resort_indices i bs) = length bs"
  by (induction bs arbitrary: i) auto

lemma resort_indices_forget:
  "map (\<lambda>b. b\<lparr>index := 0\<rparr>) (resort_indices i bs) = map (\<lambda>b. b\<lparr>index := 0\<rparr>) bs"
  by (induction bs arbitrary: i) auto

lemma sdh_processed_blocks_eq:
  "sdh_processed_blocks bs =
     map clean_sdh_markers
       (filter (\<lambda>b. \<not> is_sdh_only_block b \<and> lines (clean_sdh_markers b) \<noteq> [] \<and>
           list_ex (\<lambda>line. strip line \<noteq> []) (lines (clean_sdh_markers b))) bs)"
  by (induction bs) (auto simp: Let_def)

text \<open>
  Claim C8.  For every document, the blocks of the result of the SDH-removal pass are, in
  order and up to their index, the cleaned copies of exactly those input blocks that are
  not SDH-only and keep some text after cleaning; the indices of the result are
  \<open>1, 2, ..., n\<close> in order; and every block with at least one line whose lines consist only of
  the glyph \<open>U+266A\<close> (in particular of two of them) is classified SDH-only, hence dropped.
\<close>

theorem remove_sdh_drops_music_and_renumbers:
  "map index (blocks (remove_sdh_blocks_and_clean_content doc))
     = map (\<lambda>k. 1 + int k) [0 ..< length (blocks (remove_sdh_blocks_and_clean_content doc))]
   \<and> map (\<lambda>b. b\<lparr>index := 0\<rparr>) (blocks (remove_sdh_blocks_and_clean_content doc))
     = map (\<lambda>b. (clean_sdh_markers b)\<lparr>index := 0\<rparr>)
         (filter (\<lambda>b. \<not> is_sdh_only_block b \<and> lines (clean_sdh_markers b) \<noteq> [] \<and>
             list_ex (\<lambda>line. strip line \<noteq> []) (lines (clean_sdh_markers b))) (blocks doc))
   \<and> (lines b \<noteq> [] \<and> (\<forall>l \<in> set (lines b). l \<noteq> [] \<and> set l \<subseteq> {0x266A}) \<longrightarrow> is_sdh_only_block b)"
proof -
  have a: "map index (blocks (remove_sdh_blocks_and_clean_content doc))
     = map (\<lambda>k. 1 + int k) [0 ..< length (blocks (remove_sdh_blocks_and_clean_content doc))]"
    using resort_indices_index[of 0 "sdh_processed_blocks (blocks doc)"]
    by (simp add: remove_sdh_blocks_and_clean_content_def length_resort_indices)
  have b: "map (\<lambda>b. b\<lparr>index := 0\<rparr>) (blocks (remove_sdh_blocks_and_clean_content doc))
     = map (\<lambda>b. (clean_sdh_markers b)\<lparr>index := 0\<rparr>)
         (filter (\<lambda>b. \<not> is_sdh_only_block b \<and> lines (clean_sdh_markers b) \<noteq> [] \<and>
             list_ex (\<lambda>line. strip line \<noteq> []) (lines (clean_sdh_markers b))) (blocks doc))"
    by (simp add: remove_sdh_blocks_and_clean_content_def resort_indices_forget
        sdh_processed_blocks_eq comp_def)
  from a b music_only_is_sdh_only[of b] show ?thesis by blast
qed

theorem remove_sdh_drops_music_and_renumbers_witness:
  "lines (block_of 2 3000000 4000000 [[0x266A, 0x266A]]) \<noteq> []
   \<and> list_all (\<lambda>l. l \<noteq> [] \<and> list_all (\<lambda>c. c = 0x266A) l)
        (lines (block_of 2 3000000 4000000 [[0x266A, 0x266A]]))
   \<and> is_sdh_only_block (block_of 2 3000000 4000000 [[0x266A, 0x266A]])
   \<and> blocks (remove_sdh_blocks_and_clean_content music_document)
       = [block_of 1 1000000 2000000 [ustr_of ''Hello''],
          block_of 2 5000000 6000000 [ustr_of ''World'']]
   \<and> map index (blocks (remove_sdh_blocks_and_clean_content music_document)) = [1, 2]"
proof -
  have h1: "lines (block_of 2 3000000 4000000 [[0x266A, 0x266A]]) \<noteq> []"
    by code_simp
  have h2: "list_all (\<lambda>l. l \<noteq> [] \<and> list_all (\<lambda>c. c = 0x266A) l)
        (lines (block_of 2 3000000 4000000 [[0x266A, 0x266A]]))"
    by code_simp
  then have h2': "\<forall>l \<in> set (lines (block_of 2 3000000 4000000 [[0x266A, 0x266A]])).
      l \<noteq> [] \<and> set l \<subseteq> {0x266A}"
    by (auto simp: list_all_iff)
  have h3: "blocks (remove_sdh_blocks_and_clean_content music_document)
       = [block_of 1 1000000 2000000 [ustr_of ''Hello''],
          block_of 2 5000000 6000000 [ustr_of ''World'']]"
    by code_simp
  have h4: "map (\<lambda>k. 1 + int k) [0 ..< length [block_of 1 1000000 2000000 [ustr_of ''Hello''],
          block_of 2 5000000 6000000 [ustr_of ''World'']]] = [1, 2]"
    by code_simp
  from remove_sdh_drops_music_and_renumbers[of music_document
      "block_of 2 3000000 4000000 [[0x266A, 0x266A]]"] h1 h2 h2' h3 h4
  show ?thesis by simp
qed

section \<open>Parser: results\<close>

lemma split_on_not_Nil: "split_on c s \<noteq> []"
  by (induction s) (auto split: list.splits)

lemma split_on_no_sep: "c \<notin> set u \<Longrightarrow> split_on c u = [u]"
  by (induction u) auto

lemma split_on_append: "c \<notin> set u \<Longrightarrow> split_on c (u @ c # v) = u # split_on c v"
  by (induction u) auto

lemma split_on_single: "split_on c s = [w] \<Longrightarrow> w = s \<and> c \<notin> set s"
proof (induction s arbitrary: w)
  case Nil
  then show ?case by simp
next
  case (Cons x xs)
  show ?case
  proof (cases "x = c")
    case True
    with Cons.prems split_on_not_Nil[of c xs] show ?thesis by simp
  next
    case False
    with Cons.prems split_on_not_Nil[of c xs] obtain w' where "split_on c xs = [w']" "w = x # w'"
      by (auto split: list.splits)
    with Cons.IH[of w'] False show ?thesis by simp
  qed
qed

lemma first_occurrence_Some:
  "first_occurrence sub s = Some p \<Longrightarrow> s = take p s @ sub @ drop (p + length sub) s"
proof (induction s arbitrary: p)
  case Nil
  then show ?case by (simp split: if_splits)
next
  case (Cons c cs)
  show ?case
  proof (cases "startswith (c # cs) sub")
    case True
    with Cons.prems have "p = 0" by simp
    moreover from True have "c # cs = sub @ drop (length sub) (c # cs)"
      unfolding startswith_def by (metis append_take_drop_id)
    ultimately show ?thesis by simp
  next
    case False
    with Cons.prems obtain q where q: "first_occurrence sub cs = Some q" "p = Suc q"
      by auto
    from Cons.IH[OF q(1)] q(2) show ?thesis by simp
  qed
qed

lemma py_split_not_Nil: "py_split sep s \<noteq> []"
  by (subst py_split.simps) (auto split: option.splits)

lemma py_split_two:
  assumes "sep \<noteq> []" and "py_split sep s = [a, b]"
  shows "s = a @ sep @ b"
proof (cases "first_occurrence sep s")
  case None
  with assms show ?thesis by (simp add: py_split.simps[of sep s])
next
  case (Some p)
  with assms have a: "a = take p s" and r: "py_split sep (drop (p + length sep) s) = [b]"
    by (simp_all add: py_split.simps[of sep s])
  have "b = drop (p + length sep) s"
    using r assms(1) py_split_not_Nil[of sep]
    by (cases "first_occurrence sep (drop (p + length sep) s)")
      (simp_all add: py_split.simps[of sep "drop (p + length sep) s"])
  with a first_occurrence_Some[OF Some] show ?thesis by simp
qed

lemma int_digits_chars:
  "int_digits U prev acc s = Some v \<Longrightarrow> \<forall>c \<in> set s. c = 0x5F \<or> is_decimal U c"
  by (induction s arbitrary: prev acc) (auto simp: is_decimal_def split: if_splits option.splits)

lemma int_digits_nonneg:
  "ucd_ok U \<Longrightarrow> 0 \<le> acc \<Longrightarrow> int_digits U prev acc s = Some v \<Longrightarrow> 0 \<le> v"
proof (induction s arbitrary: prev acc)
  case Nil
  then show ?case by (simp split: if_splits)
next
  case (Cons c cs)
  show ?case
  proof (cases "c = 0x5F")
    case True
    with Cons show ?thesis by (auto split: if_splits)
  next
    case False
    with Cons.prems obtain d where d: "decimal_value U c = Some d"
      and r: "int_digits U True (acc * 10 + d) cs = Some v"
      by (auto split: option.splits)
    from Cons.prems(1) d have "0 \<le> d" unfolding ucd_ok_def by blast
    with Cons.prems(2) have "0 \<le> acc * 10 + d" by simp
    from Cons.IH[OF Cons.prems(1) this r] show ?thesis .
  qed
qed

lemma space_facts:
  "py_isspace 0x20" "\<not> py_isspace 0x2D" "\<not> py_isspace 0x3A" "\<not> py_isspace 0x2C" "\<not> py_isspace 0x3E"
  by (simp_all add: py_isspace_def in_range_def)

lemma decimal_facts:
  assumes "ucd_ok U" and "is_decimal U d"
  shows "\<not> py_isspace d" "d \<noteq> 0x20" "d \<noteq> 0x2B" "d \<noteq> 0x2D" "d \<noteq> 0x5F" "d \<noteq> 0x3A" "d \<noteq> 0x2C"
    "\<exists>v. decimal_value U d = Some v \<and> 0 \<le> v \<and> v \<le> 9"
proof -
  from assms show a: "\<not> py_isspace d" and "d \<noteq> 0x2B" "d \<noteq> 0x2D" "d \<noteq> 0x5F" "d \<noteq> 0x3A" "d \<noteq> 0x2C"
    unfolding ucd_ok_def is_decimal_def by blast+
  from a space_facts(1) show "d \<noteq> 0x20" by auto
  from assms show "\<exists>v. decimal_value U d = Some v \<and> 0 \<le> v \<and> v \<le> 9"
    unfolding ucd_ok_def is_decimal_def by (cases "decimal_value U d") auto
qed

lemma dropWhile_id: "s = [] \<or> \<not> P (hd s) \<Longrightarrow> dropWhile P s = s"
  by (cases s) auto

lemma strip_surround:
  assumes "\<forall>c \<in> set W. py_isspace c" and "\<forall>c \<in> set X. py_isspace c"
    and "u \<noteq> []" and "\<not> py_isspace (hd u)" and "\<not> py_isspace (last u)"
  shows "strip (W @ u @ X) = u"
proof -
  have "dropWhile py_isspace (W @ u @ X) = dropWhile py_isspace (u @ X)"
    by (rule dropWhile_append2) (use assms(1) in simp)
  also from assms(3,4) have "\<dots> = u @ X"
    by (cases u) auto
  finally have l: "lstrip (W @ u @ X) = u @ X" by (simp add: lstrip_def)
  have "dropWhile py_isspace (rev X @ rev u) = dropWhile py_isspace (rev u)"
    by (rule dropWhile_append2) (use assms(2) in simp)
  also from assms(3,5) have "\<dots> = rev u"
    by (intro dropWhile_id) (simp add: hd_rev)
  finally show ?thesis using l by (simp add: strip_def rstrip_def)
qed

lemma set_dropWhile_keeps: "c \<in> set t \<Longrightarrow> \<not> P c \<Longrightarrow> c \<in> set (dropWhile P t)"
  by (induction t) auto

lemma strip_keeps: "c \<in> set t \<Longrightarrow> \<not> py_isspace c \<Longrightarrow> c \<in> set (strip t)"
  by (simp add: strip_def rstrip_def lstrip_def set_dropWhile_keeps)

lemma dropWhile_snoc_keeps: "\<not> P d \<Longrightarrow> \<exists>u. dropWhile P (ys @ [d]) = u @ [d]"
  by (induction ys) auto

lemma strip_hd: "\<not> py_isspace d \<Longrightarrow> \<exists>r. strip (d # t) = d # r"
proof -
  assume d: "\<not> py_isspace d"
  then have l: "lstrip (d # t) = d # t" by (simp add: lstrip_def)
  from dropWhile_snoc_keeps[where P = py_isspace and d = d and ys = "rev t"] d obtain u
    where "dropWhile py_isspace (rev t @ [d]) = u @ [d]" by blast
  with l show ?thesis by (simp add: strip_def rstrip_def)
qed

lemma py_int_two_digits:
  assumes "ucd_ok U" and "is_decimal U a" and "is_decimal U b"
    and "\<forall>c \<in> set W. py_isspace c" and "\<forall>c \<in> set X. py_isspace c"
    and "py_int U (W @ [a, b] @ X) = Some v"
  shows "0 \<le> v \<and> v \<le> 99"
proof -
  from decimal_facts[OF assms(1,2)] obtain va where a: "\<not> py_isspace a" "a \<noteq> 0x2B" "a \<noteq> 0x2D"
    "a \<noteq> 0x5F" "decimal_value U a = Some va" "0 \<le> va" "va \<le> 9" by blast
  from decimal_facts[OF assms(1,3)] obtain vb where b: "\<not> py_isspace b"
    "b \<noteq> 0x5F" "decimal_value U b = Some vb" "0 \<le> vb" "vb \<le> 9" by blast
  from a(1) b(1) assms(4,5) have "strip (W @ [a, b] @ X) = [a, b]"
    by (intro strip_surround) simp_all
  with assms(6) a b have "v = va * 10 + vb"
    by (simp add: py_int_def)
  with a b show ?thesis by simp
qed

lemma py_int_three_digits:
  assumes "ucd_ok U" and "is_decimal U a" and "is_decimal U b" and "is_decimal U c"
    and "\<forall>c \<in> set X. py_isspace c"
    and "py_int U ([a, b, c] @ X) = Some v"
  shows "0 \<le> v \<and> v \<le> 999"
proof -
  from decimal_facts[OF assms(1,2)] obtain va where a: "\<not> py_isspace a" "a \<noteq> 0x2B" "a \<noteq> 0x2D"
    "a \<noteq> 0x5F" "decimal_value U a = Some va" "0 \<le> va" "va \<le> 9" by blast
  from decimal_facts[OF assms(1,3)] obtain vb where b: "\<not> py_isspace b"
    "b \<noteq> 0x5F" "decimal_value U b = Some vb" "0 \<le> vb" "vb \<le> 9" by blast
  from decimal_facts[OF assms(1,4)] obtain vc where c: "\<not> py_isspace c"
    "c \<noteq> 0x5F" "decimal_value U c = Some vc" "0 \<le> vc" "vc \<le> 9" by blast
  from a(1) c(1) assms(5) have "strip ([] @ [a, b, c] @ X) = [a, b, c]"
    by (intro strip_surround) simp_all
  with assms(6) a b c have "v = (va * 10 + vb) * 10 + vc"
    by (simp add: py_int_def)
  with a b c show ?thesis by simp
qed

lemma py_int_digit_first:
  assumes "ucd_ok U" and "is_decimal U a" and "py_int U (a # t) = Some v"
  shows "0 \<le> v \<and> (\<forall>c \<in> set t. \<not> py_isspace c \<longrightarrow> c = 0x5F \<or> is_decimal U c)"
proof -
  from decimal_facts[OF assms(1,2)] have a: "\<not> py_isspace a" "a \<noteq> 0x2B" "a \<noteq> 0x2D" by blast+
  from strip_hd[OF a(1), of t] obtain r where r: "strip (a # t) = a # r" by blast
  with assms(3) a have i: "int_digits U False 0 (a # r) = Some v"
    by (simp add: py_int_def)
  from int_digits_nonneg[OF assms(1) _ i] have "0 \<le> v" by simp
  moreover have "c = 0x5F \<or> is_decimal U c" if "c \<in> set t" "\<not> py_isspace c" for c
  proof -
    from that have "c \<in> set (strip (a # t))" by (intro strip_keeps) simp_all
    with r int_digits_chars[OF i] show ?thesis by auto
  qed
  ultimately show ?thesis by blast
qed

lemma time_stamp_prefix_shape:
  assumes "time_stamp_prefix U s"
  shows "\<exists>d0 d1 d3 d4 d6 d7 d9 d10 d11.
           s = [d0, d1, 0x3A, d3, d4, 0x3A, d6, d7, 0x2C, d9, d10, d11] @ drop 12 s \<and>
           is_decimal U d0 \<and> is_decimal U d1 \<and> is_decimal U d3 \<and> is_decimal U d4 \<and>
           is_decimal U d6 \<and> is_decimal U d7 \<and> is_decimal U d9 \<and> is_decimal U d10 \<and>
           is_decimal U d11"
proof -
  from assms have len: "12 \<le> length s" by (simp add: time_stamp_prefix_def)
  have "take 12 s = map ((!) s) [0 ..< 12]"
    using len by (simp add: list_eq_iff_nth_eq)
  also have "[0 ..< 12] = [0, 1, 2, 3, 4, 5, 6, 7, 8, 9, 10, 11::nat]"
    by (simp add: upt_rec)
  finally have "take 12 s = [s ! 0, s ! 1, s ! 2, s ! 3, s ! 4, s ! 5, s ! 6, s ! 7, s ! 8,
      s ! 9, s ! 10, s ! 11]" by simp
  with assms have "take 12 s = [s ! 0, s ! 1, 0x3A, s ! 3, s ! 4, 0x3A, s ! 6, s ! 7, 0x2C,
      s ! 9, s ! 10, s ! 11]" by (simp add: time_stamp_prefix_def)
  then have "s = [s ! 0, s ! 1, 0x3A, s ! 3, s ! 4, 0x3A, s ! 6, s ! 7, 0x2C,
      s ! 9, s ! 10, s ! 11] @ drop 12 s"
    by (metis append_take_drop_id)
  with assms show ?thesis
    unfolding time_stamp_prefix_def by blast
qed

lemma fields_of_stamp:
  assumes ok: "ucd_ok U" and W: "\<forall>c \<in> set W. py_isspace c" and C: "time_stamp_prefix U C"
    and p: "parse_time_fields U (W @ C) = Inr (h, m, s, ms)"
  shows "0 \<le> h \<and> h \<le> 99 \<and> 0 \<le> m \<and> m \<le> 99 \<and> 0 \<le> s \<and> s \<le> 99 \<and>
         (\<exists>d9 d10 d11. is_decimal U d9 \<and> is_decimal U d10 \<and> is_decimal U d11 \<and>
            py_int U ([d9, d10, d11] @ drop 12 C) = Some ms)"
proof -
  from time_stamp_prefix_shape[OF C] obtain d0 d1 d3 d4 d6 d7 d9 d10 d11 where
    sh: "C = [d0, d1, 0x3A, d3, d4, 0x3A, d6, d7, 0x2C, d9, d10, d11] @ drop 12 C"
    and d: "is_decimal U d0" "is_decimal U d1" "is_decimal U d3" "is_decimal U d4"
      "is_decimal U d6" "is_decimal U d7" "is_decimal U d9" "is_decimal U d10" "is_decimal U d11"
    by blast
  define T where "T = drop 12 C"
  define rest3 where "rest3 = [d6, d7, 0x2C, d9, d10, d11] @ T"
  have Wc: "0x3A \<notin> set W" using W space_facts by auto
  have e1: "W @ C = (W @ [d0, d1]) @ 0x3A # ([d3, d4] @ 0x3A # rest3)"
    using sh by (simp add: T_def rest3_def)
  have n1: "0x3A \<notin> set (W @ [d0, d1])"
    using Wc decimal_facts(6)[OF ok d(1)] decimal_facts(6)[OF ok d(2)]
    by auto
  have n2: "0x3A \<notin> set [d3, d4]"
    using decimal_facts(6)[OF ok d(3)] decimal_facts(6)[OF ok d(4)] by auto
  have s1: "split_on 0x3A ((W @ [d0, d1]) @ 0x3A # ([d3, d4] @ 0x3A # rest3))
      = (W @ [d0, d1]) # split_on 0x3A ([d3, d4] @ 0x3A # rest3)"
    by (rule split_on_append[OF n1])
  have s2: "split_on 0x3A ([d3, d4] @ 0x3A # rest3) = [d3, d4] # split_on 0x3A rest3"
    by (rule split_on_append[OF n2])
  have sp: "split_on 0x3A (W @ C) = (W @ [d0, d1]) # [d3, d4] # split_on 0x3A rest3"
    by (simp only: e1 s1 s2)
  from p sp obtain x where x: "split_on 0x3A rest3 = [x]"
    by (cases "split_on 0x3A rest3"; cases "tl (split_on 0x3A rest3)")
      (auto simp: parse_time_fields_def split_on_not_Nil split: list.splits)
  from split_on_single[OF x] have x3: "x = rest3" by simp
  have e2: "rest3 = [d6, d7] @ 0x2C # ([d9, d10, d11] @ T)" by (simp add: rest3_def)
  have n3: "0x2C \<notin> set [d6, d7]"
    using decimal_facts(7)[OF ok d(5)] decimal_facts(7)[OF ok d(6)] by auto
  have s3: "split_on 0x2C ([d6, d7] @ 0x2C # ([d9, d10, d11] @ T))
      = [d6, d7] # split_on 0x2C ([d9, d10, d11] @ T)"
    by (rule split_on_append[OF n3])
  have sp2: "split_on 0x2C rest3 = [d6, d7] # split_on 0x2C ([d9, d10, d11] @ T)"
    by (simp only: e2 s3)
  from p sp x x3 sp2 obtain y where y: "split_on 0x2C ([d9, d10, d11] @ T) = [y]"
    by (cases "split_on 0x2C ([d9, d10, d11] @ T)"; cases "tl (split_on 0x2C ([d9, d10, d11] @ T))")
      (auto simp: parse_time_fields_def split_on_not_Nil split: list.splits)
  from split_on_single[OF y] have y3: "y = [d9, d10, d11] @ T" by simp
  from p sp x x3 sp2 y y3 have ints: "py_int U (W @ [d0, d1]) = Some h" "py_int U [d3, d4] = Some m"
    "py_int U [d6, d7] = Some s" "py_int U ([d9, d10, d11] @ T) = Some ms"
    by (auto simp: parse_time_fields_def split: option.splits)
  from py_int_two_digits[OF ok d(1) d(2) W, of "[]" h] ints(1) have "0 \<le> h \<and> h \<le> 99" by simp
  moreover from py_int_two_digits[OF ok d(3) d(4), of "[]" "[]" m] ints(2)
  have "0 \<le> m \<and> m \<le> 99" by simp
  moreover from py_int_two_digits[OF ok d(5) d(6), of "[]" "[]" s] ints(3)
  have "0 \<le> s \<and> s \<le> 99" by simp
  ultimately show ?thesis using ints(4) d(7,8,9) unfolding T_def by blast
qed

lemma timedelta_Inr:
  "timedelta (h, m, s, ms) = Inr us \<Longrightarrow> us = (((h * 60 + m) * 60 + s) * 1000 + ms) * 1000"
  by (simp add: timedelta_def Let_def split: if_splits)

lemma parse_time_Inr:
  "parse_time U str = Inr us \<Longrightarrow>
   \<exists>h m s ms. parse_time_fields U str = Inr (h, m, s, ms) \<and>
     us = (((h * 60 + m) * 60 + s) * 1000 + ms) * 1000"
  by (auto simp: parse_time_def split: sum.splits dest: timedelta_Inr)

lemma accepted_time_line:
  assumes ok: "ucd_ok U"
    and match: "time_pattern_match U time_line"
    and sp: "py_split (ustr_of '' --> '') time_line = [start_str, end_str]"
    and p1: "parse_time_fields U start_str = Inr (h1, m1, s1, ms1)"
    and p2: "parse_time_fields U end_str = Inr (h2, m2, s2, ms2)"
  shows "0 \<le> h1 \<and> h1 \<le> 99 \<and> 0 \<le> m1 \<and> m1 \<le> 99 \<and> 0 \<le> s1 \<and> s1 \<le> 99 \<and> 0 \<le> ms1 \<and> ms1 \<le> 999 \<and>
         0 \<le> h2 \<and> h2 \<le> 99 \<and> 0 \<le> m2 \<and> m2 \<le> 99 \<and> 0 \<le> s2 \<and> s2 \<le> 99 \<and> 0 \<le> ms2"
proof -
  define sep where "sep = ustr_of '' --> ''"
  have sep: "sep = [0x20, 0x2D, 0x2D, 0x3E, 0x20]" by (simp add: sep_def ustr_of_def)
  from sp have line: "time_line = start_str @ sep @ end_str"
    unfolding sep_def[symmetric] by (intro py_split_two) (simp_all add: sep)
  from match have P: "time_stamp_prefix U time_line" by (simp add: time_pattern_match_def)
  define R where "R = drop 12 time_line"
  define A where "A = dropWhile py_isspace R"
  from match have arrow: "startswith A (ustr_of ''-->'')"
    and P2: "time_stamp_prefix U (dropWhile py_isspace (drop 3 A))"
    by (simp_all add: time_pattern_match_def Let_def A_def R_def)
  from time_stamp_prefix_shape[OF P] obtain d0 d1 d3 d4 d6 d7 d9 d10 d11 where
    sh: "time_line = [d0, d1, 0x3A, d3, d4, 0x3A, d6, d7, 0x2C, d9, d10, d11] @ R"
    and d: "is_decimal U d0" "is_decimal U d1" "is_decimal U d3" "is_decimal U d4"
      "is_decimal U d6" "is_decimal U d7" "is_decimal U d9" "is_decimal U d10" "is_decimal U d11"
    unfolding R_def by blast
  define P1 where "P1 = [d0, d1, 0x3A, d3, d4, 0x3A, d6, d7, 0x2C, d9, d10, d11]"
  have lP1: "length P1 = 12" by (simp add: P1_def)
  have sh': "time_line = P1 @ R" using sh by (simp add: P1_def)
  have nosp: "0x20 \<notin> set P1"
    using d[THEN decimal_facts(2)[OF ok]] by (simp add: P1_def)
  \<comment> \<open>the start string holds the whole first stamp\<close>
  have len: "12 \<le> length start_str"
  proof (rule ccontr)
    assume "\<not> 12 \<le> length start_str"
    then have l: "length start_str < 12" by simp
    have "time_line ! length start_str = 0x20"
      unfolding line sep by (simp add: nth_append)
    moreover have "time_line ! length start_str = P1 ! length start_str"
      using l lP1 by (subst sh') (simp add: nth_append)
    moreover have "P1 ! length start_str \<in> set P1"
      using l lP1 by (intro nth_mem) simp
    ultimately show False using nosp by metis
  qed
  define X where "X = drop 12 start_str"
  have RX: "R = X @ sep @ end_str"
    using len unfolding R_def X_def line by simp
  have ne: "start_str \<noteq> []" using len by auto
  have Pa: "time_stamp_prefix U start_str"
    using P len ne unfolding line time_stamp_prefix_def by (simp add: nth_append)
  from fields_of_stamp[OF ok _ Pa, of "[]" h1 m1 s1 ms1] p1
  obtain e9 e10 e11 where b1: "0 \<le> h1 \<and> h1 \<le> 99 \<and> 0 \<le> m1 \<and> m1 \<le> 99 \<and> 0 \<le> s1 \<and> s1 \<le> 99"
    and e: "is_decimal U e9" "is_decimal U e10" "is_decimal U e11"
    and i1: "py_int U ([e9, e10, e11] @ X) = Some ms1"
    unfolding X_def by auto
  \<comment> \<open>what follows the first stamp in the start string is whitespace\<close>
  from py_int_digit_first[OF ok e(1), of "[e10, e11] @ X" ms1] i1
  have chars: "\<forall>c \<in> set X. \<not> py_isspace c \<longrightarrow> c = 0x5F \<or> is_decimal U c"
    by simp
  have Xsp: "\<forall>c \<in> set X. py_isspace c"
  proof (rule ccontr)
    assume "\<not> (\<forall>c \<in> set X. py_isspace c)"
    then have ne: "dropWhile py_isspace X \<noteq> []"
      by (simp add: dropWhile_eq_Nil_conv)
    then obtain x X' where x: "dropWhile py_isspace X = x # X'"
      by (cases "dropWhile py_isspace X") auto
    then have xn: "\<not> py_isspace x"
      using hd_dropWhile[OF ne] by simp
    have xin: "x \<in> set X"
      using x set_dropWhileD[of x py_isspace X] by simp
    have "X = takeWhile py_isspace X @ x # X'"
      using x takeWhile_dropWhile_id[of py_isspace X] by simp
    then have "R = takeWhile py_isspace X @ (x # X' @ sep @ end_str)"
      using RX by simp
    then have "A = dropWhile py_isspace (takeWhile py_isspace X @ (x # X' @ sep @ end_str))"
      by (simp add: A_def)
    also have "\<dots> = dropWhile py_isspace (x # X' @ sep @ end_str)"
      by (rule dropWhile_append2) (auto dest: set_takeWhileD)
    also have "\<dots> = x # X' @ sep @ end_str"
      using xn by simp
    finally have "x = 0x2D"
      using arrow by (simp add: startswith_def ustr_of_def)
    with chars xin xn decimal_facts(4)[OF ok, of x] show False by auto
  qed
  from py_int_three_digits[OF ok e Xsp i1] have b2: "0 \<le> ms1 \<and> ms1 \<le> 999" .
  \<comment> \<open>the end string is whitespace followed by the second stamp\<close>
  have "A = dropWhile py_isspace (sep @ end_str)"
    unfolding A_def RX by (rule dropWhile_append2) (use Xsp in simp)
  then have A2: "A = [0x2D, 0x2D, 0x3E, 0x20] @ end_str"
    by (simp add: sep space_facts)
  then have "dropWhile py_isspace (drop 3 A) = dropWhile py_isspace end_str"
    by (simp add: space_facts)
  with P2 have Pb: "time_stamp_prefix U (dropWhile py_isspace end_str)" by simp
  have "end_str = takeWhile py_isspace end_str @ dropWhile py_isspace end_str"
    by simp
  with p2 have p2': "parse_time_fields U (takeWhile py_isspace end_str @ dropWhile py_isspace end_str)
      = Inr (h2, m2, s2, ms2)" by simp
  have W: "\<forall>c \<in> set (takeWhile py_isspace end_str). py_isspace c"
    by (auto dest: set_takeWhileD)
  from fields_of_stamp[OF ok W Pb p2']
  obtain f9 f10 f11 where b3: "0 \<le> h2 \<and> h2 \<le> 99 \<and> 0 \<le> m2 \<and> m2 \<le> 99 \<and> 0 \<le> s2 \<and> s2 \<le> 99"
    and f: "is_decimal U f9"
    and i2: "py_int U ([f9, f10, f11] @ drop 12 (dropWhile py_isspace end_str)) = Some ms2"
    by auto
  from py_int_digit_first[OF ok f, of "[f10, f11] @ drop 12 (dropWhile py_isspace end_str)" ms2] i2
  have b4: "0 \<le> ms2" by simp
  from b1 b2 b3 b4 show ?thesis by simp
qed

lemma from_srt_time_Inr:
  "from_srt_time U s = Inr tc \<Longrightarrow>
   \<exists>a b st en. py_split (ustr_of '' --> '') s = [a, b] \<and> parse_time U a = Inr st \<and>
     parse_time U b = Inr en \<and> tc = \<lparr> tc_start = st, tc_end = en \<rparr>"
  unfolding from_srt_time_def
  by (simp split: list.splits sum.splits)

lemma ucd_ok_ascii_digits: "ucd_ok ascii_digits"
  by (auto simp: ucd_ok_def ascii_digits_def in_range_def py_isspace_def)

text \<open>
  Claim C3, as stated, fails: the pattern asks only for two digits in the minutes and
  seconds, and nothing checks a range afterwards.  The line
  \<open>00:61:75,000 --> 00:00:01,0001234\<close> is accepted, with 61 minutes and 75 seconds in its
  start and 1234 milliseconds in its end (the pattern matches a prefix, and the digits
  after it are read into the last field).
\<close>

theorem time_code_out_of_range_counterexample:
  "parse_time_code ascii_digits odd_time_line = Inr \<lparr> tc_start = 3735000000, tc_end = 2234000 \<rparr>
   \<and> py_split (ustr_of '' --> '') odd_time_line
       = [ustr_of ''00:61:75,000'', ustr_of ''00:00:01,0001234'']
   \<and> parse_time_fields ascii_digits (ustr_of ''00:61:75,000'') = Inr (0, 61, 75, 0)
   \<and> parse_time_fields ascii_digits (ustr_of ''00:00:01,0001234'') = Inr (0, 0, 1, 1234)"
  by code_simp

text \<open>
  Claim C3, amended.  Time-code parsing fails with a format error whenever the line does not
  start with the pattern \<open>HH:MM:SS,mmm --> HH:MM:SS,mmm\<close>.  For every time-code line accepted
  without error, the two stamps are read from the two sides of the arrow, every numeric
  field is at least 0, hours, minutes and seconds are at most 99, and the milliseconds of
  the start are at most 999; minutes and seconds above 59 are accepted, and the
  milliseconds of the end have no upper bound.  This holds for every table of digits.
\<close>

theorem time_code_fields_in_range:
  "(\<not> time_pattern_match U time_line \<longrightarrow>
      parse_time_code U time_line = Inl (InvalidTimeFormat time_line))
   \<and> (ucd_ok U \<and> parse_time_code U time_line = Inr tc \<longrightarrow>
        (\<exists>start_str end_str h1 m1 s1 ms1 h2 m2 s2 ms2.
           py_split (ustr_of '' --> '') time_line = [start_str, end_str] \<and>
           parse_time_fields U start_str = Inr (h1, m1, s1, ms1) \<and>
           parse_time_fields U end_str = Inr (h2, m2, s2, ms2) \<and>
           tc_start tc = (((h1 * 60 + m1) * 60 + s1) * 1000 + ms1) * 1000 \<and>
           tc_end tc = (((h2 * 60 + m2) * 60 + s2) * 1000 + ms2) * 1000 \<and>
           0 \<le> h1 \<and> h1 \<le> 99 \<and> 0 \<le> m1 \<and> m1 \<le> 99 \<and> 0 \<le> s1 \<and> s1 \<le> 99 \<and>
           0 \<le> ms1 \<and> ms1 \<le> 999 \<and>
           0 \<le> h2 \<and> h2 \<le> 99 \<and> 0 \<le> m2 \<and> m2 \<le> 99 \<and> 0 \<le> s2 \<and> s2 \<le> 99 \<and> 0 \<le> ms2))"
proof (intro conjI impI)
  assume "\<not> time_pattern_match U time_line"
  then show "parse_time_code U time_line = Inl (InvalidTimeFormat time_line)"
    by (simp add: parse_time_code_def)
next
  assume a: "ucd_ok U \<and> parse_time_code U time_line = Inr tc"
  then have ok: "ucd_ok U" and match: "time_pattern_match U time_line"
    and f: "from_srt_time U time_line = Inr tc"
    by (auto simp: parse_time_code_def split: if_splits)
  from from_srt_time_Inr[OF f] obtain start_str end_str st en where
    sp: "py_split (ustr_of '' --> '') time_line = [start_str, end_str]"
    and st: "parse_time U start_str = Inr st" and en: "parse_time U end_str = Inr en"
    and tc: "tc = \<lparr> tc_start = st, tc_end = en \<rparr>"
    by blast
  from parse_time_Inr[OF st] obtain h1 m1 s1 ms1 where
    p1: "parse_time_fields U start_str = Inr (h1, m1, s1, ms1)"
    and v1: "st = (((h1 * 60 + m1) * 60 + s1) * 1000 + ms1) * 1000" by blast
  from parse_time_Inr[OF en] obtain h2 m2 s2 ms2 where
    p2: "parse_time_fields U end_str = Inr (h2, m2, s2, ms2)"
    and v2: "en = (((h2 * 60 + m2) * 60 + s2) * 1000 + ms2) * 1000" by blast
  from tc v1 v2 have t1: "tc_start tc = (((h1 * 60 + m1) * 60 + s1) * 1000 + ms1) * 1000"
    and t2: "tc_end tc = (((h2 * 60 + m2) * 60 + s2) * 1000 + ms2) * 1000"
    by simp_all
  note b = accepted_time_line[OF ok match sp p1 p2]
  show "\<exists>start_str end_str h1 m1 s1 ms1 h2 m2 s2 ms2.
           py_split (ustr_of '' --> '') time_line = [start_str, end_str] \<and>
           parse_time_fields U start_str = Inr (h1, m1, s1, ms1) \<and>
           parse_time_fields U end_str = Inr (h2, m2, s2, ms2) \<and>
           tc_start tc = (((h1 * 60 + m1) * 60 + s1) * 1000 + ms1) * 1000 \<and>
           tc_end tc = (((h2 * 60 + m2) * 60 + s2) * 1000 + ms2) * 1000 \<and>
           0 \<le> h1 \<and> h1 \<le> 99 \<and> 0 \<le> m1 \<and> m1 \<le> 99 \<and> 0 \<le> s1 \<and> s1 \<le> 99 \<and>
           0 \<le> ms1 \<and> ms1 \<le> 999 \<and>
           0 \<le> h2 \<and> h2 \<le> 99 \<and> 0 \<le> m2 \<and> m2 \<le> 99 \<and> 0 \<le> s2 \<and> s2 \<le> 99 \<and> 0 \<le> ms2"
    apply (rule exI[of _ start_str], rule exI[of _ end_str])
    apply (rule exI[of _ h1], rule exI[of _ m1], rule exI[of _ s1], rule exI[of _ ms1])
    apply (rule exI[of _ h2], rule exI[of _ m2], rule exI[of _ s2], rule exI[of _ ms2])
    apply (intro conjI)
    using sp p1 p2 t1 t2 b apply simp_all
    done
qed

theorem time_code_fields_in_range_witness:
  "ucd_ok ascii_digits
   \<and> parse_time_code ascii_digits plain_time_line = Inr \<lparr> tc_start = 73933000, tc_end = 78233000 \<rparr>
   \<and> \<not> time_pattern_match ascii_digits (ustr_of ''00:01:13.933 --> 00:01:18.233'')
   \<and> parse_time_code ascii_digits (ustr_of ''00:01:13.933 --> 00:01:18.233'')
       = Inl (InvalidTimeFormat (ustr_of ''00:01:13.933 --> 00:01:18.233''))
   \<and> (\<exists>start_str end_str h1 m1 s1 ms1 h2 m2 s2 ms2.
         py_split (ustr_of '' --> '') plain_time_line = [start_str, end_str] \<and>
         parse_time_fields ascii_digits start_str = Inr (h1, m1, s1, ms1) \<and>
         parse_time_fields ascii_digits end_str = Inr (h2, m2, s2, ms2) \<and>
         tc_start \<lparr> tc_start = 73933000, tc_end = 78233000 \<rparr>
           = (((h1 * 60 + m1) * 60 + s1) * 1000 + ms1) * 1000 \<and>
         tc_end \<lparr> tc_start = 73933000, tc_end = 78233000 \<rparr>
           = (((h2 * 60 + m2) * 60 + s2) * 1000 + ms2) * 1000 \<and>
         0 \<le> h1 \<and> h1 \<le> 99 \<and> 0 \<le> m1 \<and> m1 \<le> 99 \<and> 0 \<le> s1 \<and> s1 \<le> 99 \<and>
         0 \<le> ms1 \<and> ms1 \<le> 999 \<and>
         0 \<le> h2 \<and> h2 \<le> 99 \<and> 0 \<le> m2 \<and> m2 \<le> 99 \<and> 0 \<le> s2 \<and> s2 \<le> 99 \<and> 0 \<le> ms2)"
proof -
  have h2: "parse_time_code ascii_digits plain_time_line
      = Inr \<lparr> tc_start = 73933000, tc_end = 78233000 \<rparr>"
    by code_simp
  have h3: "\<not> time_pattern_match ascii_digits (ustr_of ''00:01:13.933 --> 00:01:18.233'')"
    by code_simp
  note h4 = time_code_fields_in_range[of ascii_digits "ustr_of ''00:01:13.933 --> 00:01:18.233''",
      THEN conjunct1, THEN mp, OF h3]
  note h5 = time_code_fields_in_range[of ascii_digits plain_time_line
      "\<lparr> tc_start = 73933000, tc_end = 78233000 \<rparr>", THEN conjunct2, THEN mp,
      OF conjI[OF ucd_ok_ascii_digits h2]]
  show ?thesis
    by (intro conjI) (rule ucd_ok_ascii_digits h2 h3 h4 h5)+
qed

lemma collect_text_lines_shape:
  "collect_text_lines U ls = (text_lines, remaining) \<Longrightarrow>
   (\<exists>pre. ls = pre @ remaining \<and> text_lines = map rstrip pre \<and>
      (\<forall>k < length pre. \<not> next_block_starts U (drop k ls)))
   \<and> (remaining = [] \<or> next_block_starts U remaining)"
proof (induction ls arbitrary: text_lines remaining)
  case Nil
  then show ?case by simp
next
  case (Cons line rest)
  show ?case
  proof (cases "next_block_starts U (line # rest)")
    case True
    with Cons.prems have "text_lines = []" "remaining = line # rest"
      by (simp_all add: next_block_starts_def Let_def)
    with True show ?thesis by simp
  next
    case False
    obtain tl' rem' where c: "collect_text_lines U rest = (tl', rem')"
      by (cases "collect_text_lines U rest")
    with False Cons.prems have eq: "text_lines = rstrip line # tl'" "remaining = rem'"
      by (auto simp: next_block_starts_def Let_def)
    from Cons.IH[OF c] obtain pre where pre: "rest = pre @ rem'" "tl' = map rstrip pre"
      "\<forall>k < length pre. \<not> next_block_starts U (drop k rest)"
      and r: "rem' = [] \<or> next_block_starts U rem'" by blast
    have "\<forall>k < length (line # pre). \<not> next_block_starts U (drop k (line # rest))"
    proof (intro allI impI)
      fix k assume "k < length (line # pre)"
      then show "\<not> next_block_starts U (drop k (line # rest))"
        using False pre(3) by (cases k) auto
    qed
    with pre eq r show ?thesis
      by (intro conjI exI[of _ "line # pre"]) simp_all
  qed
qed

text \<open>
  Claim C4, as stated, fails: a blank line does not end the text of a block.  The loop stops
  only at a bare integer followed by a time-code line, or at the end of the input, and
  then drops the blank lines at the end of what it collected.  In the input below a blank
  line follows the text line \<open>Hello\<close>, and the line \<open>World\<close> after it is part of the
  text of the same block.
\<close>

theorem blank_line_keeps_text_counterexample:
  "split_on 0x0A (strip blank_line_content) = blank_line_lines
   \<and> blank_line_lines ! 3 = []
   \<and> parse_content ascii_digits blank_line_content
       = Inr (document_of
           [block_of 1 1000000 2000000 [ustr_of ''Hello'', [], ustr_of ''World'']] None)"
  by code_simp

text \<open>
  Claim C4, amended.  When a block is parsed, after blank lines are skipped and the index and
  time-code lines are read, the sequence of text lines is ended only by a line that is a
  bare integer immediately followed by a line that starts with a valid time code, or by the
  end of the input: the text of the block is every line before that point, right-stripped,
  blank lines included, without the blank lines at its end; no line at or after that point
  is part of the text, and no earlier line is such a terminator.
\<close>

theorem parse_block_text_lines:
  assumes "parse_block U ls = Inr (Some b, remaining)"
  shows "\<exists>skipped index_line time_line pre.
           ls = skipped @ index_line # time_line # pre @ remaining \<and>
           list_all (\<lambda>l. strip l = []) skipped \<and>
           lines b = remove_trailing_empty (map rstrip pre) \<and>
           (\<forall>k < length pre. \<not> next_block_starts U (drop k (pre @ remaining))) \<and>
           (remaining = [] \<or> next_block_starts U remaining)"
proof -
  define skipped where "skipped = takeWhile (\<lambda>l. strip l = []) ls"
  define d where "d = dropWhile (\<lambda>l. strip l = []) ls"
  have ls: "ls = skipped @ d" by (simp add: skipped_def d_def)
  have sk: "list_all (\<lambda>l. strip l = []) skipped"
    by (auto simp: skipped_def list_all_iff dest: set_takeWhileD)
  from assms obtain l rest where d1: "d = l # rest"
    unfolding parse_block_def d_def[symmetric] by (cases d) auto
  from assms d1 obtain t rest2 where d2: "rest = t # rest2"
    unfolding parse_block_def d_def[symmetric]
    by (cases rest) (auto simp: Let_def split: if_splits option.splits)
  obtain raw rem where c: "collect_text_lines U rest2 = (raw, rem)"
    by (cases "collect_text_lines U rest2")
  from assms d1 d2 c have r: "remaining = rem" and lb: "lines b = remove_trailing_empty raw"
    unfolding parse_block_def d_def[symmetric]
    by (auto simp: Let_def split: if_splits option.splits sum.splits)
  from collect_text_lines_shape[OF c] obtain pre where pre: "rest2 = pre @ rem"
    "raw = map rstrip pre" "\<forall>k < length pre. \<not> next_block_starts U (drop k rest2)"
    and e: "rem = [] \<or> next_block_starts U rem" by blast
  show ?thesis
    apply (rule exI[of _ skipped], rule exI[of _ l], rule exI[of _ t], rule exI[of _ pre])
    using ls d1 d2 pre e r lb sk apply simp
    done
qed

theorem parse_block_text_lines_witness:
  "parse_block ascii_digits blank_line_lines
     = Inr (Some (block_of 1 1000000 2000000 [ustr_of ''Hello'', [], ustr_of ''World'']), [])
   \<and> (\<exists>skipped index_line time_line pre.
         blank_line_lines = skipped @ index_line # time_line # pre @ [] \<and>
         list_all (\<lambda>l. strip l = []) skipped \<and>
         lines (block_of 1 1000000 2000000 [ustr_of ''Hello'', [], ustr_of ''World''])
           = remove_trailing_empty (map rstrip pre) \<and>
         (\<forall>k < length pre. \<not> next_block_starts ascii_digits (drop k (pre @ []))) \<and>
         (([]::ustr list) = [] \<or> next_block_starts ascii_digits []))"
proof -
  have h: "parse_block ascii_digits blank_line_lines
     = Inr (Some (block_of 1 1000000 2000000 [ustr_of ''Hello'', [], ustr_of ''World'']), [])"
    by code_simp
  note t = parse_block_text_lines[OF h]
  show ?thesis
    by (intro conjI) (rule h t)+
qed

section \<open>The configuration under \<open>process_file\<close>\<close>

lemma process_file_fixed_language:
  assumes "config_language config \<noteq> AUTO"
    and "process_file U lower input_path detected content config = Some (r, config')"
  shows "config' = config"
  using assms
  by (auto simp add: process_file_def Let_def split: sum.splits option.splits)

lemma process_file_other_fields:
  assumes "process_file U lower input_path detected content config = Some (r, config')"
  shows "config'\<lparr>config_language := config_language config\<rparr> = config"
  using assms
  by (auto simp add: process_file_def Let_def split: sum.splits option.splits if_splits)

lemma process_file_auto_language:
  assumes "config_language config = AUTO"
    and "process_file U lower input_path detected content config = Some (Inr (d, t), config')"
  shows "Some (config_language config') = detected_language d"
proof -
  have sdh: "detected_language (remove_sdh_blocks_and_clean_content x) = detected_language x" for x
    by (simp add: remove_sdh_blocks_and_clean_content_def Let_def)
  have dbl: "detected_language (detect_block_languages x) = detected_language x" for x
    by (simp add: detect_block_languages_def)
  have pd: "process_document lower c x = Some y \<Longrightarrow> detected_language y = detected_language x"
    for c x y
    by (auto simp add: process_document_def)
  from assms show ?thesis
    by (auto simp add: process_file_def Let_def sdh dbl split: sum.splits option.splits if_splits
        dest!: pd)
qed

text \<open>
  C9.  The configuration the caller supplied is not left as it was by whole-file processing
  in auto-language mode: \<open>process_file\<close> on a Chinese file, under the default configuration
  (language \<open>auto\<close>), leaves the language field set to Chinese.  The processor that is then
  given an English file of two short lines, with that same configuration object, no longer
  detects the document's language and applies the Chinese character limit of 16: the two
  lines stay apart, while the same file processed first is written with its lines merged.
\<close>

theorem process_file_auto_mode_changes_config:
  "config_language default_config = AUTO
   \<and> map_option snd
        (process_file ascii_digits ascii_lower (ustr_of ''a.srt'') (ustr_of ''utf-8'') zh_file
           default_config)
      = Some (default_config\<lparr>config_language := CHINESE\<rparr>)
   \<and> written_text
        (process_file ascii_digits ascii_lower (ustr_of ''b.srt'') (ustr_of ''utf-8'') en_file
           default_config)
      = Some (py_join [0x0A]
          [ustr_of ''1'', ustr_of ''00:00:01,000 --> 00:00:03,000'',
           ustr_of ''I think that we should go home now.'', []])
   \<and> written_text
        (process_file ascii_digits ascii_lower (ustr_of ''b.srt'') (ustr_of ''utf-8'') en_file
           (default_config\<lparr>config_language := CHINESE\<rparr>))
      = Some (py_join [0x0A]
          [ustr_of ''1'', ustr_of ''00:00:01,000 --> 00:00:03,000'',
           ustr_of ''I think that we'', ustr_of ''should go home now.'', []])"
  by code_simp


end
